theory Spec2Isabelle
  imports Main
begin

section \<open>Values and records of the events emitter\<close>

text \<open>
  The emitter of \<^verbatim>\<open>src/events.ts\<close> is modelled sequentially: one call runs to its end
  before the next starts (the semaphore of the source serialises the calls that matter).
  Block numbers are mathematical integers, far below the range where a JavaScript
  number stops being exact.

  A JavaScript value that is a number or a string (\<^verbatim>\<open>startingBlock\<close>, the bounds handed
  to \<^verbatim>\<open>processPastEvents\<close> and \<^verbatim>\<open>batchFetchAndProcessEvents\<close>). \<open>NaN\<close> is the number
  that \<^verbatim>\<open>undefined + 1\<close> evaluates to.
\<close>

datatype jsval = Num int | Str string | NaN

text \<open>The result of \<^verbatim>\<open>Math.ceil (a / b)\<close> on integers: an integer or an infinity.\<close>

datatype count = Finite int | PosInfinity | NegInfinity

record BlockHeader =
  number :: int
  hash :: string

record EventData =
  event :: string
  blockNumber :: int
  blockHash :: string
  transactionHash :: string
  logIndex :: int

text \<open>
  A row of the \<^verbatim>\<open>Event\<close> table (\<^verbatim>\<open>EventInterface\<close>). The fields carry the prefix
  \<open>row_\<close> because \<^verbatim>\<open>EventData\<close> has fields of the same names; \<open>row_content\<close> is the
  event that \<^verbatim>\<open>JSON.stringify\<close> serialises.
\<close>

record EventInterface =
  row_blockNumber :: int
  row_transactionHash :: string
  row_logIndex :: int
  row_contractAddress :: string
  row_event :: string
  row_targetConfirmation :: int
  row_content :: EventData

record ProgressInfo =
  stepsComplete :: int
  totalSteps :: count
  stepFromBlock :: int
  stepToBlock :: int

text \<open>A topic of the filter: one signature, or a nested list that means "or".\<close>

datatype topic = Topic string | TopicOr "string list"

datatype error =
    NoTopicsOrEvents
      \<comment> \<open>\<^verbatim>\<open>Error('You have to specify options.topics or options.events!')\<close>\<close>
  | DuplicatedEvents
      \<comment> \<open>\<^verbatim>\<open>Error('Duplicated events!')\<close>\<close>
  | BlocksNotNumbers
      \<comment> \<open>\<^verbatim>\<open>TypeError('fromBlock and toBlock has to be numbers!')\<close>\<close>
  | FromAfterTo
      \<comment> \<open>\<^verbatim>\<open>Error('fromBlock has to be smaller then toBlock!')\<close>\<close>
  | ConfirmatorUndefined
      \<comment> \<open>the \<^verbatim>\<open>TypeError\<close> of calling a method of \<^verbatim>\<open>undefined\<close>\<close>
  | SequelizeUniqueConstraintError
  | RpcError string
  | StorageError string
  | ListenerError string

text \<open>What the emitter emits: the channel and its payload.\<close>

datatype emission =
    NewEvent EventData
  | Progress ProgressInfo
  | Reorg
  | ReorgOutOfRange int
  | InitFinished
  | InvalidConfirmation EventInterface
  | ErrorEvent error

text \<open>The calls of \<^verbatim>\<open>logger.error\<close>; the other log levels are not recorded.\<close>

datatype logged =
    ReorgOutOfConfirmationRange
  | ErrorInTheProcessingLoop error

datatype ModelConfirmator = ModelConfirmator string

record EventsEmitterOptions =
  opt_topics :: "topic list option"
  opt_events :: "string list option"
  opt_batchSize :: "int option"
  opt_confirmations :: "int option"
  opt_startingBlock :: "jsval option"
  opt_confirmator :: "ModelConfirmator option"
  opt_serialListeners :: "bool option"
  opt_serialProcessing :: "bool option"

text \<open>The read-only fields of \<^verbatim>\<open>BaseEventsEmitter\<close>, as the constructor sets them.\<close>

record Emitter =
  eventNames :: "string list option"
  startingBlock :: jsval
  confirmations :: int
  topics :: "topic list option"
  batchSize :: int
  serialListeners :: "bool option"
  serialProcessing :: "bool option"
  confirmator :: "ModelConfirmator option"
  contractAddress :: string

text \<open>
  What the emitter changes: the two cursors of the block tracker, the \<^verbatim>\<open>Event\<close> table,
  the emissions in the order they are made, the error log, and \<^verbatim>\<open>isInitialized\<close>.
\<close>

record State =
  lastFetchedBlock :: "(int \<times> string) option"
  lastProcessedBlock :: "(int \<times> string) option"
  eventTable :: "EventInterface list"
  emitted :: "emission list"
  errorLog :: "logged list"
  isInitialized :: bool

text \<open>
  The collaborators outside the repository, fixed for the length of one call: the node
  (\<^verbatim>\<open>eth.getBlock\<close>, \<^verbatim>\<open>eth.getBlockNumber\<close>, \<^verbatim>\<open>contract.getPastEvents\<close> with its
  \<^verbatim>\<open>fromBlock\<close>, \<^verbatim>\<open>toBlock\<close> and \<^verbatim>\<open>topics\<close>), the failure of the storage behind
  \<^verbatim>\<open>Event.bulkCreate\<close>, and the listeners: \<open>listenerThrows x\<close> is the error a listener
  of the emission \<open>x\<close> throws, if one does.
\<close>

record Env =
  getBlock :: "jsval \<Rightarrow> error + BlockHeader"
  getBlockNumber :: "error + int"
  getPastEvents :: "jsval \<Rightarrow> int \<Rightarrow> topic list option \<Rightarrow> error + EventData list"
  storageFails :: "EventInterface list \<Rightarrow> error option"
  listenerThrows :: "emission \<Rightarrow> error option"
  keccak256 :: "string \<Rightarrow> string"

text \<open>A call either throws, or returns a value; both leave a state behind.\<close>

datatype 'a outcome = Throws error State | Returns 'a State

section \<open>Construction\<close>

text \<open>
  Modelled from the spec: \<^verbatim>\<open>hashTopics\<close> of \<^verbatim>\<open>utils\<close>, which is not among the sources.
  Raw event signatures are hashed at construction time; absent topics stay absent.
\<close>

fun hashTopic :: "(string \<Rightarrow> string) \<Rightarrow> topic \<Rightarrow> topic" where
  "hashTopic h (Topic t) = Topic (h t)"
| "hashTopic h (TopicOr ts) = TopicOr (map h ts)"

definition hashTopics :: "(string \<Rightarrow> string) \<Rightarrow> topic list option \<Rightarrow> topic list option" where
  "hashTopics h ts = map_option (map (hashTopic h)) ts"

text \<open>
  The constructor of \<^verbatim>\<open>BaseEventsEmitter\<close>. \<open>options\<close> is optional as a whole; each
  \<^verbatim>\<open>options?.x ?? d\<close> reads a field with its default. The only check is the one on
  topics and event names.
\<close>

definition optField :: "('o \<Rightarrow> 'a option) \<Rightarrow> 'o option \<Rightarrow> 'a option" where
  "optField f options = (case options of None \<Rightarrow> None | Some opts \<Rightarrow> f opts)"

definition BaseEventsEmitter_constructor ::
  "Env \<Rightarrow> string \<Rightarrow> EventsEmitterOptions option \<Rightarrow> error + Emitter" where
  "BaseEventsEmitter_constructor env address options =
     (let this_eventNames = optField opt_events options;
          this_startingBlock =
            (case optField opt_startingBlock options of None \<Rightarrow> Str ''genesis'' | Some b \<Rightarrow> b);
          this_confirmations =
            (case optField opt_confirmations options of None \<Rightarrow> 0 | Some c \<Rightarrow> c);
          this_topics = hashTopics (keccak256 env) (optField opt_topics options);
          this_batchSize =
            (case optField opt_batchSize options of None \<Rightarrow> 120 | Some b \<Rightarrow> b)
      in if this_topics = None \<and> this_eventNames = None then Inl NoTopicsOrEvents
         else Inr \<lparr> eventNames = this_eventNames,
                    startingBlock = this_startingBlock,
                    confirmations = this_confirmations,
                    topics = this_topics,
                    batchSize = this_batchSize,
                    serialListeners = optField opt_serialListeners options,
                    serialProcessing = optField opt_serialProcessing options,
                    confirmator =
                      (if this_confirmations > 0
                       then (case optField opt_confirmator options of
                               None \<Rightarrow> Some (ModelConfirmator address)
                             | Some c \<Rightarrow> Some c)
                       else None),
                    contractAddress = address \<rparr>)"

section \<open>Block tracker, emissions and the Event table\<close>

text \<open>
  Modelled from the spec: the block tracker (\<^verbatim>\<open>block-tracker\<close> is not among the
  sources). It holds two cursors; \<^verbatim>\<open>setLastProcessedBlockIfHigher\<close> writes only when
  no cursor is stored or the new number strictly exceeds the stored one.
\<close>

definition setLastFetchedBlock :: "int \<Rightarrow> string \<Rightarrow> State \<Rightarrow> State" where
  "setLastFetchedBlock n h s = s\<lparr>lastFetchedBlock := Some (n, h)\<rparr>"

definition setLastProcessedBlockIfHigher :: "int \<Rightarrow> string \<Rightarrow> State \<Rightarrow> State" where
  "setLastProcessedBlockIfHigher n h s =
     (case lastProcessedBlock s of
        None \<Rightarrow> s\<lparr>lastProcessedBlock := Some (n, h)\<rparr>
      | Some (m, _) \<Rightarrow> if m < n then s\<lparr>lastProcessedBlock := Some (n, h)\<rparr> else s)"

text \<open>
  \<^verbatim>\<open>this.emit(x).catch(e => this.emit('error', e))\<close>: the emission, and after it the
  error of a listener that throws, on the error channel. \<^verbatim>\<open>emitSerial\<close> calls the
  listeners one after the other; in this sequential model it leaves the same trace.
\<close>

definition emit :: "Env \<Rightarrow> emission \<Rightarrow> State \<Rightarrow> State" where
  "emit env x s =
     (case listenerThrows env x of
        None \<Rightarrow> s\<lparr>emitted := emitted s @ [x]\<rparr>
      | Some e \<Rightarrow> s\<lparr>emitted := emitted s @ [x, ErrorEvent e]\<rparr>)"

definition emitSerial :: "Env \<Rightarrow> emission \<Rightarrow> State \<Rightarrow> State" where
  "emitSerial env x s = emit env x s"

definition logger_error :: "logged \<Rightarrow> State \<Rightarrow> State" where
  "logger_error l s = s\<lparr>errorLog := errorLog s @ [l]\<rparr>"

text \<open>
  Modelled from the spec: the \<^verbatim>\<open>Event\<close> model (\<^verbatim>\<open>event.model\<close> is not among the
  sources). The table has the unique key (contractAddress, transactionHash, logIndex);
  \<^verbatim>\<open>bulkCreate\<close> fails as a whole on a duplicate, or when the storage fails;
  \<^verbatim>\<open>destroy\<close> deletes the rows of one contract address.
\<close>

definition rowKey :: "EventInterface \<Rightarrow> string \<times> string \<times> int" where
  "rowKey r = (row_contractAddress r, row_transactionHash r, row_logIndex r)"

definition Event_bulkCreate ::
  "Env \<Rightarrow> EventInterface list \<Rightarrow> EventInterface list \<Rightarrow> error + EventInterface list" where
  "Event_bulkCreate env rows table =
     (case storageFails env rows of
        Some e \<Rightarrow> Inl e
      | None \<Rightarrow>
          if distinct (map rowKey rows) \<and> set (map rowKey rows) \<inter> set (map rowKey table) = {}
          then Inr (table @ rows)
          else Inl SequelizeUniqueConstraintError)"

definition Event_destroy :: "string \<Rightarrow> EventInterface list \<Rightarrow> EventInterface list" where
  "Event_destroy address table = filter (\<lambda>r. row_contractAddress r \<noteq> address) table"

section \<open>Processing events\<close>

definition serializeEvent :: "Emitter \<Rightarrow> EventData \<Rightarrow> EventInterface" where
  "serializeEvent em data =
     \<lparr> row_blockNumber = blockNumber data,
       row_transactionHash = transactionHash data,
       row_logIndex = logIndex data,
       row_contractAddress = contractAddress em,
       row_event = event data,
       row_targetConfirmation = confirmations em,
       row_content = data \<rparr>"

text \<open>
  \<^verbatim>\<open>emitEvents\<close>: every event is emitted as \<^verbatim>\<open>newEvent\<close>, a failing listener is routed
  to the error channel (awaited or not, by \<^verbatim>\<open>serialProcessing\<close>), and the cursor of
  the last processed block moves after each event.
\<close>

fun emitEvents :: "Env \<Rightarrow> Emitter \<Rightarrow> EventData list \<Rightarrow> State \<Rightarrow> State" where
  "emitEvents env em [] s = s"
| "emitEvents env em (data # events) s =
     (let emittingFnc = (if serialListeners em = Some True then emitSerial env else emit env);
          s1 = (if serialProcessing em = Some True
                then emittingFnc (NewEvent data) s \<comment> \<open>awaited, caught by \<^verbatim>\<open>try\<close>\<close>
                else emittingFnc (NewEvent data) s) \<comment> \<open>not awaited, caught by \<^verbatim>\<open>.catch\<close>\<close>
      in emitEvents env em events
           (setLastProcessedBlockIfHigher (blockNumber data) (blockHash data) s1))"

text \<open>
  \<^verbatim>\<open>currentBlockNumber || await this.eth.getBlockNumber()\<close>: an argument that is absent
  or zero is replaced by the head the node reports.
\<close>

definition currentBlockNumberOr :: "Env \<Rightarrow> int option \<Rightarrow> error + int" where
  "currentBlockNumberOr env currentBlockNumber =
     (case currentBlockNumber of
        None \<Rightarrow> getBlockNumber env
      | Some n \<Rightarrow> if n \<noteq> 0 then Inr n else getBlockNumber env)"

definition filterByEventNames :: "Emitter \<Rightarrow> EventData list \<Rightarrow> EventData list" where
  "filterByEventNames em events =
     (case eventNames em of
        None \<Rightarrow> events
      | Some names \<Rightarrow> filter (\<lambda>data. event data \<in> set names) events)"

text \<open>
  \<^verbatim>\<open>processEvents\<close>. A single event is the list of one event. The rows to be confirmed
  are stored before anything is emitted, so a failing insert emits nothing.
\<close>

definition processEvents ::
  "Env \<Rightarrow> Emitter \<Rightarrow> EventData list \<Rightarrow> int option \<Rightarrow> State \<Rightarrow> unit outcome" where
  "processEvents env em events0 currentBlockNumber0 s =
     (case currentBlockNumberOr env currentBlockNumber0 of
        Inl e \<Rightarrow> Throws e s
      | Inr currentBlockNumber \<Rightarrow>
          (let events = filterByEventNames em events0
           in if length events = 0 then Returns () s
              else if confirmations em = 0 then Returns () (emitEvents env em events s)
              else
                (let thresholdBlock = currentBlockNumber - confirmations em;
                     eventsToBeConfirmed =
                       filter (\<lambda>event. blockNumber event > thresholdBlock) events
                 in case Event_bulkCreate env (map (serializeEvent em) eventsToBeConfirmed)
                           (eventTable s) of
                      Inl e \<Rightarrow>
                        if e = SequelizeUniqueConstraintError then Throws DuplicatedEvents s
                        else Throws e s
                    | Inr table \<Rightarrow>
                        (let eventsToBeEmitted =
                               filter (\<lambda>event. blockNumber event \<le> thresholdBlock) events
                         in Returns ()
                              (emitEvents env em eventsToBeEmitted (s\<lparr>eventTable := table\<rparr>))))))"

section \<open>Fetching in batches\<close>

text \<open>
  \<^verbatim>\<open>Math.ceil (a / b)\<close> for integers: the quotient rounded up, and an infinity when the
  divisor is zero (\<^verbatim>\<open>0 / 0\<close> does not arise: the source takes the case of equal
  bounds first).
\<close>

definition ceilDiv :: "int \<Rightarrow> int \<Rightarrow> count" where
  "ceilDiv a b =
     (if b = 0 then (if a < 0 then NegInfinity else PosInfinity)
      else Finite (- ((- a) div b)))"

definition countOfBatches :: "Emitter \<Rightarrow> int \<Rightarrow> int \<Rightarrow> count" where
  "countOfBatches em fromBlock toBlock =
     (if toBlock = fromBlock then Finite 1
      else ceilDiv (toBlock - fromBlock) (batchSize em - 1))"

text \<open>The loop test \<^verbatim>\<open>batch < countOfBatches\<close>.\<close>

fun lessThanCount :: "int \<Rightarrow> count \<Rightarrow> bool" where
  "lessThanCount batch (Finite n) = (batch < n)"
| "lessThanCount batch PosInfinity = True"
| "lessThanCount batch NegInfinity = False"

definition batchFromBlock :: "Emitter \<Rightarrow> int \<Rightarrow> int \<Rightarrow> int" where
  "batchFromBlock em fromBlock batch =
     (if batch = 0 then fromBlock else fromBlock + (batch * batchSize em))"

definition batchToBlock :: "Emitter \<Rightarrow> int \<Rightarrow> int \<Rightarrow> int \<Rightarrow> int" where
  "batchToBlock em fromBlock toBlock batch =
     min (batchFromBlock em fromBlock batch + batchSize em - 1) toBlock"

text \<open>One turn of the loop of \<^verbatim>\<open>batchFetchAndProcessEvents\<close>.\<close>

definition batchBody ::
  "Env \<Rightarrow> Emitter \<Rightarrow> int \<Rightarrow> int \<Rightarrow> BlockHeader \<Rightarrow> count \<Rightarrow> int \<Rightarrow> State \<Rightarrow> unit outcome"
  where
  "batchBody env em fromBlock toBlock currentBlock steps batch s =
     (case getBlock env (Num (batchToBlock em fromBlock toBlock batch)) of
        Inl e \<Rightarrow> Throws e s
      | Inr batchToBlockHeader \<Rightarrow>
          (case getPastEvents env (Num (batchFromBlock em fromBlock batch))
                  (batchToBlock em fromBlock toBlock batch) (topics em) of
             Inl e \<Rightarrow> Throws e s
           | Inr events \<Rightarrow>
               (let progressInfo =
                      \<lparr> stepsComplete = batch + 1,
                        totalSteps = steps,
                        stepFromBlock = batchFromBlock em fromBlock batch,
                        stepToBlock = batchToBlock em fromBlock toBlock batch \<rparr>;
                    s1 = emit env (Progress progressInfo) s
                in case processEvents env em events (Some (number currentBlock)) s1 of
                     Throws e s2 \<Rightarrow> Throws e s2
                   | Returns u s2 \<Rightarrow>
                       Returns ()
                         (setLastFetchedBlock (number batchToBlockHeader)
                            (hash batchToBlockHeader) s2))))"

text \<open>
  The loop itself. With an infinite count it ends only when a turn throws, so its result
  is optional: \<open>None\<close> is the loop that never ends.
\<close>

partial_function (option) batchLoop ::
  "Env \<Rightarrow> Emitter \<Rightarrow> int \<Rightarrow> int \<Rightarrow> BlockHeader \<Rightarrow> count \<Rightarrow> int \<Rightarrow> State
     \<Rightarrow> unit outcome option"
  where
  "batchLoop env em fromBlock toBlock currentBlock steps batch s =
     (if lessThanCount batch steps
      then (case batchBody env em fromBlock toBlock currentBlock steps batch s of
              Throws e s1 \<Rightarrow> Some (Throws e s1)
            | Returns u s1 \<Rightarrow>
                batchLoop env em fromBlock toBlock currentBlock steps (batch + 1) s1)
      else Some (Returns () s))"

declare batchLoop.simps [code]

text \<open>
  \<^verbatim>\<open>batchFetchAndProcessEvents\<close>. A string bound fails the \<^verbatim>\<open>typeof\<close> check. With a
  bound that is \<open>NaN\<close> both checks pass, no comparison holds, the count is \<open>NaN\<close> and
  the loop body never runs.
\<close>

definition batchFetchAndProcessEvents ::
  "Env \<Rightarrow> Emitter \<Rightarrow> jsval \<Rightarrow> jsval \<Rightarrow> BlockHeader \<Rightarrow> State \<Rightarrow> unit outcome option" where
  "batchFetchAndProcessEvents env em fromBlock toBlock currentBlock s =
     (case (fromBlock, toBlock) of
        (Str _, _) \<Rightarrow> Some (Throws BlocksNotNumbers s)
      | (_, Str _) \<Rightarrow> Some (Throws BlocksNotNumbers s)
      | (Num f, Num t) \<Rightarrow>
          if t < f then Some (Throws FromAfterTo s)
          else batchLoop env em f t currentBlock (countOfBatches em f t) 0 s
      | _ \<Rightarrow> Some (Returns () s))"

definition processPastEvents ::
  "Env \<Rightarrow> Emitter \<Rightarrow> jsval \<Rightarrow> jsval \<Rightarrow> State \<Rightarrow> unit outcome option" where
  "processPastEvents env em from0 to0 s =
     (case getBlock env (Str ''latest'') of
        Inl e \<Rightarrow> Some (Throws e s)
      | Inr currentBlock \<Rightarrow>
          (let from = (if from0 = Str ''genesis'' then Num 0 else from0);
               to = (if to0 = Str ''latest'' then Num (number currentBlock) else to0)
           in batchFetchAndProcessEvents env em from to currentBlock s))"

text \<open>
  \<^verbatim>\<open>init\<close>: the catch-up from the starting block when nothing was fetched yet, and then,
  if the catch-up returned, the flag and the \<^verbatim>\<open>initFinished\<close> emission.
\<close>

definition finishInit :: "Env \<Rightarrow> unit outcome option \<Rightarrow> unit outcome option" where
  "finishInit env r =
     (case r of
        None \<Rightarrow> None
      | Some (Throws e s1) \<Rightarrow> Some (Throws e s1)
      | Some (Returns u s1) \<Rightarrow>
          Some (Returns () (emit env InitFinished (s1\<lparr>isInitialized := True\<rparr>))))"

definition init :: "Env \<Rightarrow> Emitter \<Rightarrow> State \<Rightarrow> unit outcome option" where
  "init env em s =
     finishInit env
       (if lastFetchedBlock s = None
        then processPastEvents env em (startingBlock em) (Str ''latest'') s
        else Some (Returns () s))"

section \<open>Reorganisations\<close>

text \<open>
  \<^verbatim>\<open>isReorg\<close>. The two tests \<^verbatim>\<open>!lastFetchedBlockNumber\<close> and
  \<^verbatim>\<open>if (lastProcessedBlockNumber)\<close> are on the truth value of a number: they take the
  number zero as they take an absent cursor.
\<close>

definition checkLastProcessed :: "Env \<Rightarrow> State \<Rightarrow> unit outcome" where
  "checkLastProcessed env s =
     (case lastProcessedBlock s of
        None \<Rightarrow> Returns () s
      | Some (lastProcessedBlockNumber, lastProcessedBlockHash) \<Rightarrow>
          if lastProcessedBlockNumber = 0 then Returns () s
          else
            (case getBlock env (Num lastProcessedBlockNumber) of
               Inl e \<Rightarrow> Throws e s
             | Inr actualLastProcessedBlock \<Rightarrow>
                 if hash actualLastProcessedBlock \<noteq> lastProcessedBlockHash
                 then Returns ()
                        (emit env (ReorgOutOfRange lastProcessedBlockNumber)
                           (logger_error ReorgOutOfConfirmationRange s))
                 else Returns () s))"

definition isReorg :: "Env \<Rightarrow> Emitter \<Rightarrow> State \<Rightarrow> bool outcome" where
  "isReorg env em s =
     (case lastFetchedBlock s of
        None \<Rightarrow> Returns False s
      | Some (lastFetchedBlockNumber, lastFetchedBlockHash) \<Rightarrow>
          if lastFetchedBlockNumber = 0 then Returns False s
          else
            (case getBlock env (Num lastFetchedBlockNumber) of
               Inl e \<Rightarrow> Throws e s
             | Inr actualLastFetchedBlock \<Rightarrow>
                 if hash actualLastFetchedBlock = lastFetchedBlockHash then Returns False s
                 else
                   (case checkLastProcessed env s of
                      Throws e s1 \<Rightarrow> Throws e s1
                    | Returns u s1 \<Rightarrow> Returns True (emit env Reorg s1))))"

text \<open>
  Modelled from the spec: \<^verbatim>\<open>checkDroppedTransactions\<close> of the confirmator
  (\<^verbatim>\<open>confirmator\<close> is not among the sources). Every buffered row of the contract whose
  (transactionHash, logIndex) is not among the refetched events is reported as an
  invalid confirmation.
\<close>

definition droppedRows :: "string \<Rightarrow> EventData list \<Rightarrow> EventInterface list \<Rightarrow> EventInterface list"
  where
  "droppedRows address newEvents table =
     filter (\<lambda>r. row_contractAddress r = address
                \<and> (row_transactionHash r, row_logIndex r)
                    \<notin> set (map (\<lambda>d. (transactionHash d, logIndex d)) newEvents)) table"

definition checkDroppedTransactions ::
  "Env \<Rightarrow> ModelConfirmator \<Rightarrow> EventData list \<Rightarrow> State \<Rightarrow> State" where
  "checkDroppedTransactions env c newEvents s =
     (case c of ModelConfirmator address \<Rightarrow>
        fold (\<lambda>r. emit env (InvalidConfirmation r))
          (droppedRows address newEvents (eventTable s)) s)"

text \<open>
  \<^verbatim>\<open>handleReorg\<close>. The lower bound of the refetch is
  \<^verbatim>\<open>(n ? n + 1 : false) || this.startingBlock\<close>; the refetch passes no topics.
\<close>

definition reorgFromBlock :: "Emitter \<Rightarrow> State \<Rightarrow> jsval" where
  "reorgFromBlock em s =
     (case lastProcessedBlock s of
        None \<Rightarrow> startingBlock em
      | Some (lastProcessedBlockNumber, _) \<Rightarrow>
          if lastProcessedBlockNumber \<noteq> 0 \<and> lastProcessedBlockNumber + 1 \<noteq> 0
          then Num (lastProcessedBlockNumber + 1)
          else startingBlock em)"

definition handleReorg :: "Env \<Rightarrow> Emitter \<Rightarrow> BlockHeader \<Rightarrow> State \<Rightarrow> unit outcome" where
  "handleReorg env em currentBlock s =
     (case getPastEvents env (reorgFromBlock em s) (number currentBlock) None of
        Inl e \<Rightarrow> Throws e s
      | Inr newEvents \<Rightarrow>
          (case confirmator em of
             None \<Rightarrow> Throws ConfirmatorUndefined s
           | Some c \<Rightarrow>
               (let s1 = checkDroppedTransactions env c newEvents s;
                    s2 = s1\<lparr>eventTable := Event_destroy (contractAddress em) (eventTable s1)\<rparr>
                in case processEvents env em newEvents (Some (number currentBlock)) s2 of
                     Throws e s3 \<Rightarrow> Throws e s3
                   | Returns u s3 \<Rightarrow>
                       Returns ()
                         (setLastFetchedBlock (number currentBlock) (hash currentBlock) s3))))"

section \<open>Polling\<close>

text \<open>
  \<^verbatim>\<open>poll\<close> of \<^verbatim>\<open>PollingEventsEmitter\<close>. The \<^verbatim>\<open>try\<close> block catches what \<^verbatim>\<open>isReorg\<close> and
  \<^verbatim>\<open>batchFetchAndProcessEvents\<close> throw and writes it to the logger. The promise of
  \<^verbatim>\<open>handleReorg\<close> is returned without \<^verbatim>\<open>await\<close>, so what it throws is the result of
  \<^verbatim>\<open>poll\<close>. With no last fetched block stored, \<^verbatim>\<open>undefined + 1\<close> is \<open>NaN\<close>.
\<close>

definition pollFrom :: "State \<Rightarrow> jsval" where
  "pollFrom s =
     (case lastFetchedBlock s of
        None \<Rightarrow> NaN
      | Some (lastFetchedBlockNumber, _) \<Rightarrow> Num (lastFetchedBlockNumber + 1))"

definition catchAndLog :: "unit outcome option \<Rightarrow> unit outcome option" where
  "catchAndLog r =
     (case r of
        None \<Rightarrow> None
      | Some (Throws e s) \<Rightarrow> Some (Returns () (logger_error (ErrorInTheProcessingLoop e) s))
      | Some (Returns u s) \<Rightarrow> Some (Returns () s))"

text \<open>\<^verbatim>\<open>this.confirmations && await this.isReorg()\<close>: any non-zero number is true.\<close>

definition reorgCheck :: "Env \<Rightarrow> Emitter \<Rightarrow> State \<Rightarrow> bool outcome" where
  "reorgCheck env em s =
     (if confirmations em \<noteq> 0 then isReorg env em s else Returns False s)"

definition poll :: "Env \<Rightarrow> Emitter \<Rightarrow> BlockHeader \<Rightarrow> State \<Rightarrow> unit outcome option" where
  "poll env em currentBlock s =
     (case reorgCheck env em s of
        Throws e s1 \<Rightarrow> catchAndLog (Some (Throws e s1))
      | Returns True s1 \<Rightarrow> Some (handleReorg env em currentBlock s1)
      | Returns False s1 \<Rightarrow>
          if map_option fst (lastFetchedBlock s1) = Some (number currentBlock)
          then Some (Returns () s1)
          else catchAndLog
                 (batchFetchAndProcessEvents env em (pollFrom s1)
                    (Num (number currentBlock)) currentBlock s1))"

section \<open>Observations and concrete scenarios\<close>

text \<open>The events delivered on the \<^verbatim>\<open>newEvent\<close> channel, in order.\<close>

fun newEventsOf :: "emission list \<Rightarrow> EventData list" where
  "newEventsOf [] = []"
| "newEventsOf (NewEvent d # xs) = d # newEventsOf xs"
| "newEventsOf (x # xs) = newEventsOf xs"

text \<open>The rows buffered for one contract address.\<close>

definition rowsOf :: "string \<Rightarrow> EventInterface list \<Rightarrow> EventInterface list" where
  "rowsOf address table = filter (\<lambda>r. row_contractAddress r = address) table"

text \<open>
  The environment answers every call the emitter makes with a value: the node has a
  header for every block number and logs for every range, and the storage does not
  fail. (A duplicate row still fails the insert.)
\<close>

definition nodeAnswers :: "Env \<Rightarrow> bool" where
  "nodeAnswers env \<longleftrightarrow>
     (\<forall>n. \<exists>header. getBlock env (Num n) = Inr header)
   \<and> (\<forall>f t ts. \<exists>events. getPastEvents env (Num f) t ts = Inr events)
   \<and> (\<exists>n. getBlockNumber env = Inr n)
   \<and> (\<forall>rows. storageFails env rows = None)"

text \<open>An outcome that is a return, or the error \<^verbatim>\<open>'Duplicated events!'\<close>.\<close>

definition onlyDuplicates :: "unit outcome \<Rightarrow> bool" where
  "onlyDuplicates out = (case out of Throws e s \<Rightarrow> e = DuplicatedEvents | Returns u s \<Rightarrow> True)"

text \<open>
  A node whose head is \<open>head\<close>, whose block \<open>n\<close> has the hash \<open>hashOf n\<close> and whose
  contract has the logs \<open>logs\<close>; the storage works and no listener throws.
\<close>

definition exampleNode :: "int \<Rightarrow> (int \<Rightarrow> string) \<Rightarrow> EventData list \<Rightarrow> Env" where
  "exampleNode head hashOf logs =
     \<lparr> getBlock =
         (\<lambda>b. case b of
                 Num n \<Rightarrow> Inr \<lparr>number = n, hash = hashOf n\<rparr>
               | Str tag \<Rightarrow>
                   if tag = ''latest'' then Inr \<lparr>number = head, hash = hashOf head\<rparr>
                   else Inl (RpcError ''unknown block'')
               | NaN \<Rightarrow> Inl (RpcError ''unknown block'')),
       getBlockNumber = Inr head,
       getPastEvents =
         (\<lambda>fromBlock toBlock ts. case fromBlock of
                 Num f \<Rightarrow>
                   Inr (filter (\<lambda>d. f \<le> blockNumber d \<and> blockNumber d \<le> toBlock) logs)
               | Str tag \<Rightarrow>
                   if tag = ''genesis'' then Inr (filter (\<lambda>d. blockNumber d \<le> toBlock) logs)
                   else Inl (RpcError ''unknown block'')
               | NaN \<Rightarrow> Inl (RpcError ''unknown block'')),
       storageFails = (\<lambda>rows. None),
       listenerThrows = (\<lambda>x. None),
       keccak256 = (\<lambda>x. x) \<rparr>"

text \<open>The same node when its log endpoint times out.\<close>

definition timeoutNode :: "int \<Rightarrow> (int \<Rightarrow> string) \<Rightarrow> Env" where
  "timeoutNode head hashOf =
     (exampleNode head hashOf [])\<lparr>getPastEvents := (\<lambda>fromBlock toBlock ts. Inl (RpcError ''timeout''))\<rparr>"

definition exampleEmitter :: "int \<Rightarrow> int \<Rightarrow> Emitter" where
  "exampleEmitter bsize conf =
     \<lparr> eventNames = Some [''Transfer''],
       startingBlock = Str ''genesis'',
       confirmations = conf,
       topics = None,
       batchSize = bsize,
       serialListeners = None,
       serialProcessing = None,
       confirmator = (if conf > 0 then Some (ModelConfirmator ''0x123'') else None),
       contractAddress = ''0x123'' \<rparr>"

definition emptyState :: State where
  "emptyState =
     \<lparr> lastFetchedBlock = None, lastProcessedBlock = None, eventTable = [],
       emitted = [], errorLog = [], isInitialized = False \<rparr>"

definition logAt :: "string \<Rightarrow> int \<Rightarrow> string \<Rightarrow> EventData" where
  "logAt name n tx =
     \<lparr> event = name, blockNumber = n, blockHash = ''h'', transactionHash = tx, logIndex = 0 \<rparr>"

definition exampleOptions :: EventsEmitterOptions where
  "exampleOptions =
     \<lparr> opt_topics = None, opt_events = Some [''Transfer''], opt_batchSize = None,
       opt_confirmations = None, opt_startingBlock = None, opt_confirmator = None,
       opt_serialListeners = None, opt_serialProcessing = None \<rparr>"

text \<open>
  A state after a fetch up to block 8 under two confirmations: the event of block 7 waits
  in the buffer.
\<close>

definition bufferedState :: State where
  "bufferedState =
     emptyState\<lparr>lastFetchedBlock := Some (8, ''old''),
                eventTable := [serializeEvent (exampleEmitter 5 2) (logAt ''Transfer'' 7 ''z'')]\<rparr>"

section \<open>Lemmas on emissions and on processEvents\<close>

lemmas scen =
  exampleNode_def timeoutNode_def exampleEmitter_def emptyState_def logAt_def exampleOptions_def

lemma newEventsOf_append: "newEventsOf (xs @ ys) = newEventsOf xs @ newEventsOf ys"
  by (induction xs rule: newEventsOf.induct) simp_all

lemma emit_fields [simp]:
  "eventTable (emit env x s) = eventTable s"
  "lastFetchedBlock (emit env x s) = lastFetchedBlock s"
  "lastProcessedBlock (emit env x s) = lastProcessedBlock s"
  "errorLog (emit env x s) = errorLog s"
  "isInitialized (emit env x s) = isInitialized s"
  by (simp_all add: emit_def split: option.split)

lemma emit_NewEvent: "newEventsOf (emitted (emit env (NewEvent d) s)) = newEventsOf (emitted s) @ [d]"
  by (simp add: emit_def newEventsOf_append split: option.split)

lemma emit_other:
  "(\<And>d. x \<noteq> NewEvent d) \<Longrightarrow> newEventsOf (emitted (emit env x s)) = newEventsOf (emitted s)"
  by (cases x) (auto simp: emit_def newEventsOf_append split: option.split)

lemma setLastProcessed_fields [simp]:
  "eventTable (setLastProcessedBlockIfHigher n h s) = eventTable s"
  "lastFetchedBlock (setLastProcessedBlockIfHigher n h s) = lastFetchedBlock s"
  "emitted (setLastProcessedBlockIfHigher n h s) = emitted s"
  "errorLog (setLastProcessedBlockIfHigher n h s) = errorLog s"
  "isInitialized (setLastProcessedBlockIfHigher n h s) = isInitialized s"
  by (simp_all add: setLastProcessedBlockIfHigher_def split: option.split prod.split)

lemma emitEvents_fields [simp]:
  "eventTable (emitEvents env em events s) = eventTable s"
  "lastFetchedBlock (emitEvents env em events s) = lastFetchedBlock s"
  "errorLog (emitEvents env em events s) = errorLog s"
  "isInitialized (emitEvents env em events s) = isInitialized s"
  by (induction events arbitrary: s; simp add: emitSerial_def Let_def)+

lemma emitEvents_newEvents:
  "newEventsOf (emitted (emitEvents env em events s)) = newEventsOf (emitted s) @ events"
  by (induction events arbitrary: s) (simp_all add: emitSerial_def emit_NewEvent Let_def)


lemma processEvents_no_confirmations:
  assumes "currentBlockNumberOr env currentBlockNumber = Inr n" and "confirmations em = 0"
  shows "processEvents env em events currentBlockNumber s =
           Returns () (emitEvents env em (filterByEventNames em events) s)"
  using assms by (cases "filterByEventNames em events = []") (simp_all add: processEvents_def)

lemma bulkCreate_Inr: "Event_bulkCreate env rows table = Inr table' \<Longrightarrow> table' = table @ rows"
  by (auto simp: Event_bulkCreate_def split: option.splits if_splits)

lemma processEvents_stored:
  assumes n: "currentBlockNumberOr env currentBlockNumber = Inr n"
    and c: "confirmations em \<noteq> 0"
    and ins: "Event_bulkCreate env
                (map (serializeEvent em)
                   (filter (\<lambda>e. blockNumber e > n - confirmations em) (filterByEventNames em events)))
                (eventTable s) = Inr table"
  shows "processEvents env em events currentBlockNumber s =
           Returns ()
             (emitEvents env em
                (filter (\<lambda>e. blockNumber e \<le> n - confirmations em) (filterByEventNames em events))
                (s\<lparr>eventTable := eventTable s @
                     map (serializeEvent em)
                       (filter (\<lambda>e. blockNumber e > n - confirmations em)
                          (filterByEventNames em events))\<rparr>))"
proof (cases "filterByEventNames em events = []")
  case True
  then show ?thesis
    using n by (simp add: processEvents_def)
next
  case False
  then show ?thesis
    using n c ins bulkCreate_Inr [OF ins]
    by (simp add: processEvents_def Let_def)
qed

lemma processEvents_insert_fails:
  assumes n: "currentBlockNumberOr env currentBlockNumber = Inr n"
    and ne: "filterByEventNames em events \<noteq> []"
    and c: "confirmations em \<noteq> 0"
    and ins: "Event_bulkCreate env
                (map (serializeEvent em)
                   (filter (\<lambda>e. blockNumber e > n - confirmations em) (filterByEventNames em events)))
                (eventTable s) = Inl e"
  shows "processEvents env em events currentBlockNumber s =
           Throws (if e = SequelizeUniqueConstraintError then DuplicatedEvents else e) s"
  using assms by (simp add: processEvents_def Let_def)

text \<open>\<^verbatim>\<open>poll\<close> when no reorganisation is detected.\<close>

lemma poll_no_reorg:
  assumes "reorgCheck env em s = Returns False s"
  shows "poll env em currentBlock s =
           (if map_option fst (lastFetchedBlock s) = Some (number currentBlock)
            then Some (Returns () s)
            else catchAndLog
                   (batchFetchAndProcessEvents env em (pollFrom s)
                      (Num (number currentBlock)) currentBlock s))"
  using assms by (simp add: poll_def)

section \<open>The batch loop ends when the environment answers\<close>

lemma nodeAnswers_getBlock: "nodeAnswers env \<Longrightarrow> \<exists>header. getBlock env (Num n) = Inr header"
  by (simp add: nodeAnswers_def)

lemma nodeAnswers_getPastEvents:
  "nodeAnswers env \<Longrightarrow> \<exists>events. getPastEvents env (Num f) t ts = Inr events"
  by (simp add: nodeAnswers_def)

lemma nodeAnswers_currentBlockNumber:
  "nodeAnswers env \<Longrightarrow> \<exists>k. currentBlockNumberOr env n = Inr k"
  by (auto simp: nodeAnswers_def currentBlockNumberOr_def split: option.split)

lemma bulkCreate_answers:
  "nodeAnswers env \<Longrightarrow> Event_bulkCreate env rows table = Inl e \<Longrightarrow> e = SequelizeUniqueConstraintError"
  by (auto simp: Event_bulkCreate_def nodeAnswers_def split: if_splits)

lemma processEvents_answers:
  assumes "nodeAnswers env"
  shows "onlyDuplicates (processEvents env em events n s)"
proof -
  from nodeAnswers_currentBlockNumber [OF assms(1)] obtain k
    where "currentBlockNumberOr env n = Inr k" by blast
  then show ?thesis
    by (auto simp: processEvents_def onlyDuplicates_def Let_def split: sum.splits
          dest: bulkCreate_answers [OF assms])
qed

lemma processEvents_answers_0:
  assumes "nodeAnswers env" and "confirmations em = 0"
  shows "\<exists>s'. processEvents env em events n s = Returns () s'"
proof -
  from nodeAnswers_currentBlockNumber [OF assms(1)] obtain k
    where "currentBlockNumberOr env n = Inr k" by blast
  then show ?thesis
    using assms(2) by (simp add: processEvents_no_confirmations)
qed

lemma batchBody_answers:
  assumes "nodeAnswers env"
  shows "onlyDuplicates (batchBody env em f t cur steps batch s)"
proof -
  from nodeAnswers_getBlock [OF assms(1)] obtain header
    where h: "getBlock env (Num (batchToBlock em f t batch)) = Inr header" by blast
  from nodeAnswers_getPastEvents [OF assms(1)] obtain events
    where e: "getPastEvents env (Num (batchFromBlock em f batch))
                (batchToBlock em f t batch) (topics em) = Inr events" by blast
  let ?s1 = "emit env (Progress \<lparr> stepsComplete = batch + 1, totalSteps = steps,
                        stepFromBlock = batchFromBlock em f batch,
                        stepToBlock = batchToBlock em f t batch \<rparr>) s"
  have "onlyDuplicates (processEvents env em events (Some (number cur)) ?s1)"
    by (rule processEvents_answers [OF assms])
  then show ?thesis
    by (auto simp add: batchBody_def h e Let_def onlyDuplicates_def split: outcome.splits)
qed

lemma batchBody_answers_0:
  assumes "nodeAnswers env" and "confirmations em = 0"
  shows "\<exists>s'. batchBody env em f t cur steps batch s = Returns () s'"
proof -
  from nodeAnswers_getBlock [OF assms(1)] obtain header
    where h: "getBlock env (Num (batchToBlock em f t batch)) = Inr header" by blast
  from nodeAnswers_getPastEvents [OF assms(1)] obtain events
    where e: "getPastEvents env (Num (batchFromBlock em f batch))
                (batchToBlock em f t batch) (topics em) = Inr events" by blast
  obtain s2 where "processEvents env em events (Some (number cur))
      (emit env (Progress \<lparr> stepsComplete = batch + 1, totalSteps = steps,
                        stepFromBlock = batchFromBlock em f batch,
                        stepToBlock = batchToBlock em f t batch \<rparr>) s) = Returns () s2"
    using processEvents_answers_0 [OF assms] by blast
  then show ?thesis
    by (simp add: batchBody_def h e Let_def)
qed

lemma batchLoop_finite:
  assumes "nodeAnswers env"
  shows "\<exists>out. batchLoop env em f t cur (Finite n) batch s = Some out \<and> onlyDuplicates out"
proof (induction "nat (n - batch)" arbitrary: batch s)
  case 0
  then have "\<not> batch < n" by simp
  then show ?case
    by (subst batchLoop.simps) (simp add: onlyDuplicates_def)
next
  case (Suc k)
  then have lt: "batch < n" and k: "k = nat (n - (batch + 1))" by simp_all
  show ?case
  proof (cases "batchBody env em f t cur (Finite n) batch s")
    case (Throws e s1)
    with batchBody_answers [OF assms, of em f t cur "Finite n" batch s] lt show ?thesis
      by (subst batchLoop.simps) simp
  next
    case (Returns u s1)
    with Suc.hyps(1) [OF k, of s1] lt show ?thesis
      by (subst batchLoop.simps) simp
  qed
qed

lemma batchLoop_finite_0:
  assumes "nodeAnswers env" and "confirmations em = 0"
  shows "\<exists>s'. batchLoop env em f t cur (Finite n) batch s = Some (Returns () s')"
proof (induction "nat (n - batch)" arbitrary: batch s)
  case 0
  then have "\<not> batch < n" by simp
  then show ?case
    by (subst batchLoop.simps) simp
next
  case (Suc k)
  then have lt: "batch < n" and k: "k = nat (n - (batch + 1))" by simp_all
  from batchBody_answers_0 [OF assms] obtain s1 where
    "batchBody env em f t cur (Finite n) batch s = Returns () s1" by blast
  with Suc.hyps(1) [OF k, of s1] lt show ?case
    by (subst batchLoop.simps) simp
qed

lemma countOfBatches_finite:
  assumes "f \<le> t" and "batchSize em \<noteq> 1"
  shows "\<exists>n. countOfBatches em f t = Finite n"
  using assms by (simp add: countOfBatches_def ceilDiv_def)

section \<open>Construction (C9)\<close>

text \<open>
  C9, as the code has it: the constructor fails exactly when both \<^verbatim>\<open>topics\<close> and
  \<^verbatim>\<open>events\<close> are missing, with the error of the missing options. It validates neither
  \<^verbatim>\<open>startingBlock\<close> nor \<^verbatim>\<open>batchSize\<close>: every other configuration is accepted.
\<close>

theorem constructor_fails_iff:
  "(BaseEventsEmitter_constructor env address options = Inl NoTopicsOrEvents
      \<longleftrightarrow> optField opt_topics options = None \<and> optField opt_events options = None)
   \<and> (\<forall>e. BaseEventsEmitter_constructor env address options = Inl e \<longrightarrow> e = NoTopicsOrEvents)"
  by (auto simp: BaseEventsEmitter_constructor_def hashTopics_def Let_def)

theorem constructor_fails_iff_witness:
  "BaseEventsEmitter_constructor (exampleNode 9 (\<lambda>n. ''h'') []) ''0x123'' None = Inl NoTopicsOrEvents
   \<and> BaseEventsEmitter_constructor (exampleNode 9 (\<lambda>n. ''h'') []) ''0x123''
        (Some (exampleOptions\<lparr>opt_batchSize := Some 0\<rparr>)) \<noteq> Inl NoTopicsOrEvents"
  using constructor_fails_iff [of "exampleNode 9 (\<lambda>n. ''h'') []" "''0x123''" None]
    constructor_fails_iff [of "exampleNode 9 (\<lambda>n. ''h'') []" "''0x123''"
      "Some (exampleOptions\<lparr>opt_batchSize := Some 0\<rparr>)"]
  by (simp add: optField_def exampleOptions_def)

text \<open>
  C9 as stated fails: a configuration with \<^verbatim>\<open>batchSize = 0\<close> and the starting block
  \<^verbatim>\<open>'yesterday'\<close> is accepted.
\<close>

theorem constructor_unvalidated_counterexample:
  "BaseEventsEmitter_constructor (exampleNode 9 (\<lambda>n. ''h'') []) ''0x123''
     (Some (exampleOptions\<lparr>opt_batchSize := Some 0, opt_startingBlock := Some (Str ''yesterday'')\<rparr>))
   = Inr ((exampleEmitter 0 0)\<lparr>startingBlock := Str ''yesterday''\<rparr>)"
  by (simp add: scen BaseEventsEmitter_constructor_def optField_def hashTopics_def)

section \<open>Classification of events (C2)\<close>

text \<open>
  C2, as the code has it. Let \<open>n\<close> be the current block number of the call: the
  argument, or the head of the node when the argument is absent or zero. With no
  confirmations every filtered event is emitted and none is buffered. With \<open>c > 0\<close>
  confirmations and an insert into the buffer that succeeds, the events emitted as
  \<^verbatim>\<open>newEvent\<close> are exactly the filtered events with \<open>blockNumber \<le> n - c\<close>, and the rows
  added to the buffer are exactly those of the filtered events with
  \<open>blockNumber > n - c\<close>. When the insert fails, the call throws and the state is the
  one before the call: nothing is emitted.
\<close>

theorem processEvents_classification:
  assumes "currentBlockNumberOr env currentBlockNumber = Inr n"
  shows "(confirmations em = 0 \<longrightarrow>
            (\<exists>s'. processEvents env em events currentBlockNumber s = Returns () s'
               \<and> newEventsOf (emitted s') = newEventsOf (emitted s) @ filterByEventNames em events
               \<and> eventTable s' = eventTable s))
       \<and> (0 < confirmations em \<longrightarrow>
            Event_bulkCreate env
              (map (serializeEvent em)
                 (filter (\<lambda>e. blockNumber e > n - confirmations em) (filterByEventNames em events)))
              (eventTable s) = Inr table \<longrightarrow>
            (\<exists>s'. processEvents env em events currentBlockNumber s = Returns () s'
               \<and> newEventsOf (emitted s') = newEventsOf (emitted s) @
                    filter (\<lambda>e. blockNumber e \<le> n - confirmations em) (filterByEventNames em events)
               \<and> eventTable s' = eventTable s @
                    map (serializeEvent em)
                      (filter (\<lambda>e. blockNumber e > n - confirmations em)
                         (filterByEventNames em events))))
       \<and> (0 < confirmations em \<longrightarrow> filterByEventNames em events \<noteq> [] \<longrightarrow>
            Event_bulkCreate env
              (map (serializeEvent em)
                 (filter (\<lambda>e. blockNumber e > n - confirmations em) (filterByEventNames em events)))
              (eventTable s) = Inl e \<longrightarrow>
            (\<exists>e'. processEvents env em events currentBlockNumber s = Throws e' s))"
proof (intro conjI impI)
  assume "confirmations em = 0"
  then show "\<exists>s'. processEvents env em events currentBlockNumber s = Returns () s'
               \<and> newEventsOf (emitted s') = newEventsOf (emitted s) @ filterByEventNames em events
               \<and> eventTable s' = eventTable s"
    using processEvents_no_confirmations [OF assms, of em events s]
    by (simp add: emitEvents_newEvents)
next
  assume c: "0 < confirmations em"
    and ins: "Event_bulkCreate env
              (map (serializeEvent em)
                 (filter (\<lambda>e. blockNumber e > n - confirmations em) (filterByEventNames em events)))
              (eventTable s) = Inr table"
  from c have "confirmations em \<noteq> 0" by simp
  from processEvents_stored [OF assms this ins]
  show "\<exists>s'. processEvents env em events currentBlockNumber s = Returns () s'
               \<and> newEventsOf (emitted s') = newEventsOf (emitted s) @
                    filter (\<lambda>e. blockNumber e \<le> n - confirmations em) (filterByEventNames em events)
               \<and> eventTable s' = eventTable s @
                    map (serializeEvent em)
                      (filter (\<lambda>e. blockNumber e > n - confirmations em)
                         (filterByEventNames em events))"
    by (simp add: emitEvents_newEvents)
next
  assume c: "0 < confirmations em" and ne: "filterByEventNames em events \<noteq> []"
    and ins: "Event_bulkCreate env
              (map (serializeEvent em)
                 (filter (\<lambda>e. blockNumber e > n - confirmations em) (filterByEventNames em events)))
              (eventTable s) = Inl e"
  from c have "confirmations em \<noteq> 0" by simp
  from processEvents_insert_fails [OF assms ne this ins]
  show "\<exists>e'. processEvents env em events currentBlockNumber s = Throws e' s"
    by blast
qed

theorem processEvents_classification_witness:
  "(\<exists>s'. processEvents (exampleNode 10 (\<lambda>n. ''h'') []) (exampleEmitter 5 0)
            [logAt ''Transfer'' 3 ''a'', logAt ''Approval'' 4 ''c'', logAt ''Transfer'' 9 ''b'']
            (Some 10) emptyState = Returns () s'
          \<and> newEventsOf (emitted s') = [logAt ''Transfer'' 3 ''a'', logAt ''Transfer'' 9 ''b'']
          \<and> eventTable s' = [])
   \<and> (\<exists>s'. processEvents (exampleNode 10 (\<lambda>n. ''h'') []) (exampleEmitter 5 2)
            [logAt ''Transfer'' 3 ''a'', logAt ''Approval'' 4 ''c'', logAt ''Transfer'' 9 ''b'']
            (Some 10) emptyState = Returns () s'
          \<and> newEventsOf (emitted s') = [logAt ''Transfer'' 3 ''a'']
          \<and> eventTable s' = [serializeEvent (exampleEmitter 5 2) (logAt ''Transfer'' 9 ''b'')])
   \<and> (\<exists>e'. processEvents (exampleNode 10 (\<lambda>n. ''h'') []) (exampleEmitter 5 2)
            [logAt ''Transfer'' 3 ''a'', logAt ''Transfer'' 9 ''b''] (Some 10)
            (emptyState\<lparr>eventTable := [serializeEvent (exampleEmitter 5 2) (logAt ''Transfer'' 9 ''b'')]\<rparr>)
          = Throws e'
              (emptyState\<lparr>eventTable := [serializeEvent (exampleEmitter 5 2) (logAt ''Transfer'' 9 ''b'')]\<rparr>))"
  using
    processEvents_classification [where env = "exampleNode 10 (\<lambda>n. ''h'') []"
      and currentBlockNumber = "Some 10" and n = 10 and em = "exampleEmitter 5 0"
      and events = "[logAt ''Transfer'' 3 ''a'', logAt ''Approval'' 4 ''c'', logAt ''Transfer'' 9 ''b'']"
      and s = emptyState]
    processEvents_classification [where env = "exampleNode 10 (\<lambda>n. ''h'') []"
      and currentBlockNumber = "Some 10" and n = 10 and em = "exampleEmitter 5 2"
      and events = "[logAt ''Transfer'' 3 ''a'', logAt ''Approval'' 4 ''c'', logAt ''Transfer'' 9 ''b'']"
      and s = emptyState
      and table = "[serializeEvent (exampleEmitter 5 2) (logAt ''Transfer'' 9 ''b'')]"]
    processEvents_classification [where env = "exampleNode 10 (\<lambda>n. ''h'') []"
      and currentBlockNumber = "Some 10" and n = 10 and em = "exampleEmitter 5 2"
      and events = "[logAt ''Transfer'' 3 ''a'', logAt ''Transfer'' 9 ''b'']"
      and s = "emptyState\<lparr>eventTable := [serializeEvent (exampleEmitter 5 2) (logAt ''Transfer'' 9 ''b'')]\<rparr>"
      and e = SequelizeUniqueConstraintError]
  by (simp add: scen currentBlockNumberOr_def filterByEventNames_def
        Event_bulkCreate_def rowKey_def serializeEvent_def)

text \<open>
  C2 as stated fails when the insert fails: the event of block 3 is confirmed at the
  head 10 with 2 confirmations, but the row of the event of block 9 is in the buffer
  already, the call throws, and nothing is emitted.
\<close>

theorem processEvents_duplicate_counterexample:
  "blockNumber (logAt ''Transfer'' 3 ''a'') \<le> 10 - confirmations (exampleEmitter 5 2)
   \<and> processEvents (exampleNode 10 (\<lambda>n. ''h'') []) (exampleEmitter 5 2)
        [logAt ''Transfer'' 3 ''a'', logAt ''Transfer'' 9 ''b''] (Some 10)
        (emptyState\<lparr>eventTable := [serializeEvent (exampleEmitter 5 2) (logAt ''Transfer'' 9 ''b'')]\<rparr>)
      = Throws DuplicatedEvents
          (emptyState\<lparr>eventTable := [serializeEvent (exampleEmitter 5 2) (logAt ''Transfer'' 9 ''b'')]\<rparr>)
   \<and> emitted (emptyState\<lparr>eventTable := [serializeEvent (exampleEmitter 5 2) (logAt ''Transfer'' 9 ''b'')]\<rparr>) = []"
  by (simp add: scen processEvents_def currentBlockNumberOr_def filterByEventNames_def
        Event_bulkCreate_def rowKey_def serializeEvent_def)

section \<open>Batches (C1)\<close>

text \<open>
  The bounds of the batches are the ones of C1, and they cover the range: with a positive
  batch size, a block \<open>x\<close> of \<open>[from, to]\<close> lies in the batch \<open>(x - from) div batchSize\<close>
  and in no other, and the loop reaches that batch.
\<close>

lemma block_in_its_batch:
  assumes b: "0 < batchSize em" and x: "f \<le> x" "x \<le> t"
  shows "batchFromBlock em f ((x - f) div batchSize em) \<le> x"
    and "x \<le> batchToBlock em f t ((x - f) div batchSize em)"
proof -
  let ?b = "batchSize em"
  let ?i = "(x - f) div ?b"
  have m: "(x - f) = ?i * ?b + (x - f) mod ?b" by simp
  have r: "0 \<le> (x - f) mod ?b" "(x - f) mod ?b < ?b" using b by simp_all
  have "f + ?i * ?b \<le> x" using m r by linarith
  then show "batchFromBlock em f ?i \<le> x"
    using x by (simp add: batchFromBlock_def)
  have "x \<le> f + ?i * ?b + ?b - 1" using m r by linarith
  then show "x \<le> batchToBlock em f t ?i"
    using x by (auto simp: batchToBlock_def batchFromBlock_def)
qed

lemma batch_of_block_unique:
  assumes b: "0 < batchSize em" and j: "0 \<le> j"
    and lo: "batchFromBlock em f j \<le> x" and hi: "x \<le> batchToBlock em f t j"
  shows "j = (x - f) div batchSize em"
proof -
  let ?b = "batchSize em"
  have lo': "f + j * ?b \<le> x" using lo by (auto simp: batchFromBlock_def split: if_splits)
  have "x \<le> batchFromBlock em f j + ?b - 1" using hi by (simp add: batchToBlock_def)
  then have hi': "x < f + j * ?b + ?b" by (auto simp: batchFromBlock_def split: if_splits)
  have "(x - f) div ?b = j"
  proof (rule int_div_pos_eq [of "x - f" ?b j "x - f - j * ?b"])
    show "x - f = ?b * j + (x - f - j * ?b)" by simp
    show "0 \<le> x - f - j * ?b" using lo' by simp
    show "x - f - j * ?b < ?b" using hi' by simp
  qed
  then show ?thesis by simp
qed

lemma ceilDiv_covers:
  fixes b d y :: int
  assumes b: "2 \<le> b" and d: "1 \<le> d" and y: "0 \<le> y" "y \<le> d"
  shows "y div b < - ((- d) div (b - 1))"
proof (rule ccontr)
  let ?q = "(- d) div (b - 1)"
  let ?i = "y div b"
  assume "\<not> ?i < - ?q"
  then have ci: "- ?q \<le> ?i" by linarith
  have "- d = ?q * (b - 1) + (- d) mod (b - 1)" by (rule div_mult_mod_eq [symmetric])
  moreover have "0 \<le> (- d) mod (b - 1)" using b by simp
  ultimately have "?q * (b - 1) \<le> - d" by linarith
  then have cd: "d \<le> (- ?q) * (b - 1)" by simp
  have "y = ?i * b + y mod b" by (rule div_mult_mod_eq [symmetric])
  moreover have "0 \<le> y mod b" using b by simp
  ultimately have iy: "?i * b \<le> y" by linarith
  have "(- ?q) * b \<le> ?i * b" using ci b by (intro mult_right_mono) simp_all
  with iy y have "(- ?q) * b \<le> d" by linarith
  then have "(- ?q) * (b - 1) + (- ?q) \<le> d" by (simp add: algebra_simps)
  with cd have c0: "- ?q \<le> 0" by linarith
  have "(- ?q) * (b - 1) \<le> 0" using c0 b by (intro mult_nonpos_nonneg) simp_all
  with cd d show False by linarith
qed

lemma loop_reaches_batch:
  assumes b: "0 < batchSize em" and x: "f \<le> x" "x \<le> t"
  shows "lessThanCount ((x - f) div batchSize em) (countOfBatches em f t)"
proof (cases "t = f")
  case True
  with x have "x = f" by simp
  with True show ?thesis by (simp add: countOfBatches_def)
next
  case False
  with x have d: "1 \<le> t - f" by simp
  show ?thesis
  proof (cases "batchSize em = 1")
    case True
    with False d show ?thesis by (simp add: countOfBatches_def ceilDiv_def)
  next
    case b1: False
    with b have b2: "2 \<le> batchSize em" by simp
    from ceilDiv_covers [OF b2 d, of "x - f"] x
    have "(x - f) div batchSize em < - ((- (t - f)) div (batchSize em - 1))" by simp
    with False b1 show ?thesis by (simp add: countOfBatches_def ceilDiv_def)
  qed
qed

text \<open>
  The count of the batches is not the one of C1: it is the quotient of \<open>to - from\<close> by
  \<open>batchSize - 1\<close>, rounded up. With the batch size 1 the count is infinite, and a fetch
  over more than one block never ends when the environment answers.
\<close>

lemma batchLoop_returns_finite:
  assumes r: "batchLoop env em f t cur steps batch s = Some out"
  shows "nodeAnswers env \<longrightarrow> confirmations em = 0 \<longrightarrow> steps \<noteq> PosInfinity"
proof (rule batchLoop.raw_induct
    [where P = "\<lambda>env em f t cur steps batch s out.
                  nodeAnswers env \<longrightarrow> confirmations em = 0 \<longrightarrow> steps \<noteq> PosInfinity",
     OF _ r])
  fix loop env em f t cur steps batch s out
  assume IH: "\<And>em f t cur steps batch s b y.
        loop em f t cur steps batch s b = Some y \<Longrightarrow>
        nodeAnswers em \<longrightarrow> confirmations f = 0 \<longrightarrow> batch \<noteq> PosInfinity"
    and body: "(if lessThanCount batch steps
         then case batchBody env em f t cur steps batch s of
                Throws e s1 \<Rightarrow> Some (Throws e s1)
              | Returns u s1 \<Rightarrow> loop env em f t cur steps (batch + 1) s1
         else Some (Returns () s)) = Some out"
  show "nodeAnswers env \<longrightarrow> confirmations em = 0 \<longrightarrow> steps \<noteq> PosInfinity"
  proof (intro impI notI)
    assume a: "nodeAnswers env" and c: "confirmations em = 0" and inf: "steps = PosInfinity"
    from batchBody_answers_0 [OF a c] obtain s1
      where b: "batchBody env em f t cur steps batch s = Returns () s1" by blast
    have l: "lessThanCount batch steps"
      by (simp add: inf)
    from body have "loop env em f t cur steps (batch + 1) s1 = Some out"
      by (simp add: l b)
    from IH [OF this] a c inf show False by simp
  qed
qed

lemma batchLoop_infinite:
  assumes "nodeAnswers env" and "confirmations em = 0"
  shows "batchLoop env em f t cur PosInfinity batch s = None"
proof (cases "batchLoop env em f t cur PosInfinity batch s")
  case None
  then show ?thesis .
next
  case (Some out)
  from batchLoop_returns_finite [OF Some] assms show ?thesis by simp
qed

lemma batchSize_one_never_ends:
  assumes "nodeAnswers env" and "confirmations em = 0" and "batchSize em = 1" and "f < t"
  shows "batchFetchAndProcessEvents env em (Num f) (Num t) cur s = None"
  using assms
  by (simp add: batchFetchAndProcessEvents_def countOfBatches_def ceilDiv_def batchLoop_infinite)

text \<open>
  C1 on the code, at \<open>from = 0\<close>, \<open>to = 9\<close> and \<open>batchSize = 5\<close>: the claim counts
  \<open>ceil (10 / 5) = 2\<close> batches; the code counts 3, and processes the batches \<open>[0, 4]\<close>,
  \<open>[5, 9]\<close> and the inverted range \<open>[10, 9]\<close>. With \<open>batchSize = 1\<close> over \<open>[0, 1]\<close>
  the count is infinite.
\<close>

theorem batches_of_ten_blocks:
  "ceilDiv (9 - 0 + 1) 5 = Finite 2
   \<and> countOfBatches (exampleEmitter 5 0) 0 9 = Finite 3
   \<and> batchFetchAndProcessEvents (exampleNode 9 (\<lambda>n. ''h'') []) (exampleEmitter 5 0) (Num 0) (Num 9)
        \<lparr>number = 9, hash = ''h''\<rparr> emptyState
      = Some (Returns ()
          (emptyState\<lparr>lastFetchedBlock := Some (9, ''h''),
             emitted :=
               [Progress \<lparr>stepsComplete = 1, totalSteps = Finite 3, stepFromBlock = 0, stepToBlock = 4\<rparr>,
                Progress \<lparr>stepsComplete = 2, totalSteps = Finite 3, stepFromBlock = 5, stepToBlock = 9\<rparr>,
                Progress \<lparr>stepsComplete = 3, totalSteps = Finite 3, stepFromBlock = 10, stepToBlock = 9\<rparr>]\<rparr>))
   \<and> countOfBatches (exampleEmitter 1 0) 0 1 = PosInfinity"
  by (simp add: batchFetchAndProcessEvents_def countOfBatches_def ceilDiv_def batchLoop.simps
     batchBody_def scen batchFromBlock_def batchToBlock_def emit_def
     processEvents_def currentBlockNumberOr_def filterByEventNames_def setLastFetchedBlock_def)

section \<open>Detection of a reorganisation (C3)\<close>

text \<open>
  Where the stored numbers are not zero, \<^verbatim>\<open>isReorg\<close> does what C3 says, as long as the
  node answers.
\<close>

lemma isReorg_nonzero:
  assumes "lastFetchedBlock s = Some (n, h)" and "n \<noteq> 0"
    and "getBlock env (Num n) = Inr actual"
  shows "hash actual = h \<Longrightarrow> isReorg env em s = Returns False s"
    and "hash actual \<noteq> h \<Longrightarrow> lastProcessedBlock s = None \<Longrightarrow>
           isReorg env em s = Returns True (emit env Reorg s)"
    and "hash actual \<noteq> h \<Longrightarrow> lastProcessedBlock s = Some (m, k) \<Longrightarrow> m \<noteq> 0 \<Longrightarrow>
           getBlock env (Num m) = Inr actualProcessed \<Longrightarrow>
           isReorg env em s =
             Returns True
               (emit env Reorg
                  (if hash actualProcessed \<noteq> k
                   then emit env (ReorgOutOfRange m) (logger_error ReorgOutOfConfirmationRange s)
                   else s))"
  using assms by (simp_all add: isReorg_def checkLastProcessed_def)

lemma isReorg_absent: "lastFetchedBlock s = None \<Longrightarrow> isReorg env em s = Returns False s"
  by (simp add: isReorg_def)

text \<open>
  C3 on the code, with the last fetched block \<open>(0, old)\<close> stored and the hash \<open>new\<close> of
  block 0 on the node: the stored hash differs, yet \<^verbatim>\<open>isReorg\<close> returns false and emits
  nothing, because the number zero is taken for an absent cursor.
\<close>

theorem isReorg_block_zero:
  "getBlock (exampleNode 9 (\<lambda>n. ''new'') []) (Num 0) = Inr \<lparr>number = 0, hash = ''new''\<rparr>
   \<and> isReorg (exampleNode 9 (\<lambda>n. ''new'') []) (exampleEmitter 5 2)
        (emptyState\<lparr>lastFetchedBlock := Some (0, ''old'')\<rparr>)
      = Returns False (emptyState\<lparr>lastFetchedBlock := Some (0, ''old'')\<rparr>)"
  by (simp add: isReorg_def exampleNode_def emptyState_def)

section \<open>Handling of a reorganisation (C4)\<close>

lemma checkDropped_fields [simp]:
  "eventTable (checkDroppedTransactions env c newEvents s) = eventTable s"
  "lastFetchedBlock (checkDroppedTransactions env c newEvents s) = lastFetchedBlock s"
  "lastProcessedBlock (checkDroppedTransactions env c newEvents s) = lastProcessedBlock s"
  "newEventsOf (emitted (checkDroppedTransactions env c newEvents s)) = newEventsOf (emitted s)"
proof -
  have "eventTable (fold (\<lambda>r. emit env (InvalidConfirmation r)) rows s) = eventTable s
      \<and> lastFetchedBlock (fold (\<lambda>r. emit env (InvalidConfirmation r)) rows s) = lastFetchedBlock s
      \<and> lastProcessedBlock (fold (\<lambda>r. emit env (InvalidConfirmation r)) rows s) = lastProcessedBlock s
      \<and> newEventsOf (emitted (fold (\<lambda>r. emit env (InvalidConfirmation r)) rows s))
          = newEventsOf (emitted s)" for rows s
    by (induction rows arbitrary: s) (simp_all add: emit_other)
  then show
    "eventTable (checkDroppedTransactions env c newEvents s) = eventTable s"
    "lastFetchedBlock (checkDroppedTransactions env c newEvents s) = lastFetchedBlock s"
    "lastProcessedBlock (checkDroppedTransactions env c newEvents s) = lastProcessedBlock s"
    "newEventsOf (emitted (checkDroppedTransactions env c newEvents s)) = newEventsOf (emitted s)"
    by (simp_all add: checkDroppedTransactions_def split: ModelConfirmator.split)
qed

lemma rowKey_serializeEvent:
  "rowKey (serializeEvent em e) = (contractAddress em, transactionHash e, logIndex e)"
  by (simp add: rowKey_def serializeEvent_def)

lemma distinct_serialized:
  "distinct (map rowKey (map (serializeEvent em) events))
     = distinct (map (\<lambda>e. (transactionHash e, logIndex e)) events)"
  by (induction events) (auto simp: rowKey_serializeEvent)

lemma rowsOf_serialized:
  "rowsOf (contractAddress em) (map (serializeEvent em) events) = map (serializeEvent em) events"
  by (induction events) (simp_all add: rowsOf_def serializeEvent_def)

lemma rowsOf_destroy: "rowsOf address (Event_destroy address table) = []"
  by (induction table) (simp_all add: rowsOf_def Event_destroy_def)

lemma destroy_append_serialized:
  "Event_destroy (contractAddress em) (table @ map (serializeEvent em) events)
     = Event_destroy (contractAddress em) table"
  by (induction events rule: rev_induct) (simp_all add: Event_destroy_def serializeEvent_def)

lemma destroy_idem: "Event_destroy address (Event_destroy address table) = Event_destroy address table"
  by (simp add: Event_destroy_def)

lemma bulkCreate_after_destroy:
  assumes "storageFails env (map (serializeEvent em) events) = None"
    and "distinct (map (\<lambda>e. (transactionHash e, logIndex e)) events)"
  shows "Event_bulkCreate env (map (serializeEvent em) events)
           (Event_destroy (contractAddress em) table)
         = Inr (Event_destroy (contractAddress em) table @ map (serializeEvent em) events)"
proof -
  have "set (map rowKey (map (serializeEvent em) events))
          \<inter> set (map rowKey (Event_destroy (contractAddress em) table)) = {}"
    by (auto simp: Event_destroy_def rowKey_def serializeEvent_def)
  with assms show ?thesis
    by (simp add: Event_bulkCreate_def distinct_serialized del: set_map map_map)
qed

text \<open>
  C4, as the code has it. With a confirmator, a last processed block that is absent or
  has a positive number, and an insert that succeeds (the storage works and the
  unconfirmed refetched events have distinct identities): the logs are refetched from
  \<open>lastProcessed.number + 1\<close>, or from the starting block, up to the current block; all
  rows buffered before the call for the contract are deleted; the refetched events go
  through the classification, so after the call the rows of the contract are exactly
  those of the refetched events still to be confirmed, the confirmed ones are emitted,
  the rows of other contracts are untouched; and the last fetched block is the current
  block. \<open>n\<close> is the current block number as \<^verbatim>\<open>processEvents\<close> reads it.
\<close>

theorem handleReorg_refetch:
  assumes "confirmator em = Some c"
    and "lastProcessedBlock s = None \<or> (\<exists>m h. lastProcessedBlock s = Some (m, h) \<and> 0 < m)"
    and "getPastEvents env
           (case lastProcessedBlock s of None \<Rightarrow> startingBlock em | Some (m, h) \<Rightarrow> Num (m + 1))
           (number currentBlock) None = Inr newEvents"
    and "currentBlockNumberOr env (Some (number currentBlock)) = Inr n"
    and "confirmations em \<noteq> 0"
    and "storageFails env
           (map (serializeEvent em)
              (filter (\<lambda>e. blockNumber e > n - confirmations em) (filterByEventNames em newEvents)))
         = None"
    and "distinct (map (\<lambda>e. (transactionHash e, logIndex e))
           (filter (\<lambda>e. blockNumber e > n - confirmations em) (filterByEventNames em newEvents)))"
  shows "\<exists>s'. handleReorg env em currentBlock s = Returns () s'
      \<and> rowsOf (contractAddress em) (eventTable s')
          = map (serializeEvent em)
              (filter (\<lambda>e. blockNumber e > n - confirmations em) (filterByEventNames em newEvents))
      \<and> Event_destroy (contractAddress em) (eventTable s')
          = Event_destroy (contractAddress em) (eventTable s)
      \<and> newEventsOf (emitted s')
          = newEventsOf (emitted s) @
              filter (\<lambda>e. blockNumber e \<le> n - confirmations em) (filterByEventNames em newEvents)
      \<and> lastFetchedBlock s' = Some (number currentBlock, hash currentBlock)"
proof -
  let ?un = "filter (\<lambda>e. blockNumber e > n - confirmations em) (filterByEventNames em newEvents)"
  let ?co = "filter (\<lambda>e. blockNumber e \<le> n - confirmations em) (filterByEventNames em newEvents)"
  let ?s1 = "checkDroppedTransactions env c newEvents s"
  let ?s2 = "?s1\<lparr>eventTable := Event_destroy (contractAddress em) (eventTable ?s1)\<rparr>"
  let ?table = "Event_destroy (contractAddress em) (eventTable s) @ map (serializeEvent em) ?un"
  from assms(2) have f: "reorgFromBlock em s
      = (case lastProcessedBlock s of None \<Rightarrow> startingBlock em | Some (m, h) \<Rightarrow> Num (m + 1))"
    by (auto simp: reorgFromBlock_def)
  have ins: "Event_bulkCreate env (map (serializeEvent em) ?un) (eventTable ?s2) = Inr ?table"
    using bulkCreate_after_destroy [OF assms(6) assms(7)] by simp
  have p: "processEvents env em newEvents (Some (number currentBlock)) ?s2
      = Returns () (emitEvents env em ?co (?s2\<lparr>eventTable := ?table\<rparr>))"
    using processEvents_stored [OF assms(4) assms(5) ins] by simp
  let ?s3 = "emitEvents env em ?co (?s2\<lparr>eventTable := ?table\<rparr>)"
  have h: "handleReorg env em currentBlock s
      = Returns () (setLastFetchedBlock (number currentBlock) (hash currentBlock) ?s3)"
    using assms(1) assms(3) f p by (simp add: handleReorg_def Let_def)
  have "rowsOf (contractAddress em) ?table = map (serializeEvent em) ?un"
    by (simp add: rowsOf_def [of _ "_ @ _"] rowsOf_destroy [unfolded rowsOf_def]
          rowsOf_serialized [unfolded rowsOf_def])
  moreover have "Event_destroy (contractAddress em) ?table
      = Event_destroy (contractAddress em) (eventTable s)"
    by (simp add: destroy_append_serialized destroy_idem)
  moreover have "newEventsOf (emitted ?s3) = newEventsOf (emitted s) @ ?co"
    by (simp add: emitEvents_newEvents)
  ultimately show ?thesis
    unfolding h by (simp add: setLastFetchedBlock_def)
qed

theorem handleReorg_refetch_witness:
  "(\<exists>s'. handleReorg (exampleNode 9 (\<lambda>n. ''new'') [logAt ''Transfer'' 3 ''a'', logAt ''Transfer'' 9 ''b''])
            (exampleEmitter 5 2) \<lparr>number = 9, hash = ''new''\<rparr> bufferedState = Returns () s'
      \<and> rowsOf ''0x123'' (eventTable s')
          = [serializeEvent (exampleEmitter 5 2) (logAt ''Transfer'' 9 ''b'')]
      \<and> newEventsOf (emitted s') = [logAt ''Transfer'' 3 ''a'']
      \<and> lastFetchedBlock s' = Some (9, ''new''))
   \<and> (\<exists>s'. handleReorg (exampleNode 9 (\<lambda>n. ''new'') [logAt ''Transfer'' 3 ''a'', logAt ''Transfer'' 9 ''b''])
            (exampleEmitter 5 2) \<lparr>number = 9, hash = ''new''\<rparr>
            (bufferedState\<lparr>lastProcessedBlock := Some (3, ''h'')\<rparr>) = Returns () s'
      \<and> rowsOf ''0x123'' (eventTable s')
          = [serializeEvent (exampleEmitter 5 2) (logAt ''Transfer'' 9 ''b'')]
      \<and> newEventsOf (emitted s') = []
      \<and> lastFetchedBlock s' = Some (9, ''new''))"
proof -
  let ?N = "exampleNode 9 (\<lambda>n. ''new'') [logAt ''Transfer'' 3 ''a'', logAt ''Transfer'' 9 ''b'']"
  let ?em = "exampleEmitter 5 2"
  let ?cur = "\<lparr>number = 9, hash = ''new''\<rparr>"
  let ?s2 = "bufferedState\<lparr>lastProcessedBlock := Some (3, ''h'')\<rparr>"
  have c: "confirmator ?em = Some (ModelConfirmator ''0x123'')" "confirmations ?em \<noteq> 0"
    "contractAddress ?em = ''0x123''"
    by (simp_all add: exampleEmitter_def)
  have n: "currentBlockNumberOr ?N (Some (number ?cur)) = Inr 9"
    by (simp add: currentBlockNumberOr_def)
  have st: "storageFails ?N rows = None" for rows
    by (simp add: exampleNode_def)
  have un: "filter (\<lambda>e. blockNumber e > 9 - confirmations ?em)
              (filterByEventNames ?em [logAt ''Transfer'' 3 ''a'', logAt ''Transfer'' 9 ''b''])
            = [logAt ''Transfer'' 9 ''b'']"
           "filter (\<lambda>e. blockNumber e > 9 - confirmations ?em)
              (filterByEventNames ?em [logAt ''Transfer'' 9 ''b'']) = [logAt ''Transfer'' 9 ''b'']"
    by (simp_all add: exampleEmitter_def filterByEventNames_def logAt_def)
  have co: "filter (\<lambda>e. blockNumber e \<le> 9 - confirmations ?em)
              (filterByEventNames ?em [logAt ''Transfer'' 3 ''a'', logAt ''Transfer'' 9 ''b''])
            = [logAt ''Transfer'' 3 ''a'']"
           "filter (\<lambda>e. blockNumber e \<le> 9 - confirmations ?em)
              (filterByEventNames ?em [logAt ''Transfer'' 9 ''b'']) = []"
    by (simp_all add: exampleEmitter_def filterByEventNames_def logAt_def)
  have p1: "lastProcessedBlock bufferedState = None
      \<or> (\<exists>m h. lastProcessedBlock bufferedState = Some (m, h) \<and> 0 < m)"
    by (simp add: bufferedState_def emptyState_def)
  have g1: "getPastEvents ?N
       (case lastProcessedBlock bufferedState of
          None \<Rightarrow> startingBlock ?em | Some (m, h) \<Rightarrow> Num (m + 1))
       (number ?cur) None = Inr [logAt ''Transfer'' 3 ''a'', logAt ''Transfer'' 9 ''b'']"
    by (simp add: bufferedState_def scen)
  have p2: "lastProcessedBlock ?s2 = None \<or> (\<exists>m h. lastProcessedBlock ?s2 = Some (m, h) \<and> 0 < m)"
    by simp
  have g2: "getPastEvents ?N
       (case lastProcessedBlock ?s2 of None \<Rightarrow> startingBlock ?em | Some (m, h) \<Rightarrow> Num (m + 1))
       (number ?cur) None = Inr [logAt ''Transfer'' 9 ''b'']"
    by (simp add: scen)
  have d: "distinct (map (\<lambda>e. (transactionHash e, logIndex e)) [logAt ''Transfer'' 9 ''b''])"
    by simp
  have e: "newEventsOf (emitted bufferedState) = []" "newEventsOf (emitted ?s2) = []"
    by (simp_all add: bufferedState_def emptyState_def)
  from handleReorg_refetch [OF c(1) p1 g1 n c(2) st, unfolded un co, OF d]
  have 1: "\<exists>s'. handleReorg ?N ?em ?cur bufferedState = Returns () s'
      \<and> rowsOf ''0x123'' (eventTable s') = [serializeEvent ?em (logAt ''Transfer'' 9 ''b'')]
      \<and> newEventsOf (emitted s') = [logAt ''Transfer'' 3 ''a'']
      \<and> lastFetchedBlock s' = Some (9, ''new'')"
    by (auto simp: c(3) e)
  from handleReorg_refetch [OF c(1) p2 g2 n c(2) st, unfolded un co, OF d]
  have 2: "\<exists>s'. handleReorg ?N ?em ?cur ?s2 = Returns () s'
      \<and> rowsOf ''0x123'' (eventTable s') = [serializeEvent ?em (logAt ''Transfer'' 9 ''b'')]
      \<and> newEventsOf (emitted s') = []
      \<and> lastFetchedBlock s' = Some (9, ''new'')"
    by (auto simp: c(3) e)
  from 1 2 show ?thesis by blast
qed

text \<open>
  C4 as stated fails: after the call a row is buffered for the contract, the one of the
  refetched event of block 9, which has less than two confirmations at the head 9.
\<close>

theorem handleReorg_rebuffers_counterexample:
  "handleReorg (exampleNode 9 (\<lambda>n. ''new'') [logAt ''Transfer'' 3 ''a'', logAt ''Transfer'' 9 ''b''])
     (exampleEmitter 5 2) \<lparr>number = 9, hash = ''new''\<rparr> bufferedState
   = Returns ()
       (emptyState\<lparr>lastFetchedBlock := Some (9, ''new''),
          lastProcessedBlock := Some (3, ''h''),
          eventTable := [serializeEvent (exampleEmitter 5 2) (logAt ''Transfer'' 9 ''b'')],
          emitted := [InvalidConfirmation (serializeEvent (exampleEmitter 5 2) (logAt ''Transfer'' 7 ''z'')),
                      NewEvent (logAt ''Transfer'' 3 ''a'')]\<rparr>)
   \<and> row_contractAddress (serializeEvent (exampleEmitter 5 2) (logAt ''Transfer'' 9 ''b''))
       = contractAddress (exampleEmitter 5 2)"
  by (simp add: bufferedState_def scen handleReorg_def reorgFromBlock_def checkDroppedTransactions_def
       droppedRows_def Event_destroy_def processEvents_def currentBlockNumberOr_def
       filterByEventNames_def Event_bulkCreate_def rowKey_def serializeEvent_def emit_def
       setLastProcessedBlockIfHigher_def setLastFetchedBlock_def Let_def del: set_filter)

section \<open>The filter on event names (C5)\<close>

text \<open>\<^verbatim>\<open>processEvents\<close> never reads the topics: the filter depends on the event names only.\<close>

lemma filterByEventNames_ignores_topics:
  "filterByEventNames (em\<lparr>topics := ts\<rparr>) events = filterByEventNames em events"
  by (simp add: filterByEventNames_def)

lemma emitEvents_ignores_topics:
  "emitEvents env (em\<lparr>topics := ts\<rparr>) events s = emitEvents env em events s"
  by (induction events arbitrary: s) simp_all

lemma serializeEvent_ignores_topics: "serializeEvent (em\<lparr>topics := ts\<rparr>) = serializeEvent em"
  by (rule ext) (simp add: serializeEvent_def)

lemma processEvents_ignores_topics:
  "processEvents env (em\<lparr>topics := ts\<rparr>) events n s = processEvents env em events n s"
  by (simp add: processEvents_def filterByEventNames_ignores_topics emitEvents_ignores_topics
        serializeEvent_ignores_topics Let_def split: sum.split)

text \<open>
  C5 on the code, with topics configured for \<^verbatim>\<open>Transfer\<close> and the event names
  \<^verbatim>\<open>['Approval']\<close>: the fetched \<^verbatim>\<open>Transfer\<close> log does not pass through, it is filtered
  out and nothing is emitted.
\<close>

theorem processEvents_filters_despite_topics:
  "processEvents (exampleNode 10 (\<lambda>n. ''h'') [])
     ((exampleEmitter 5 0)\<lparr>topics := Some [Topic ''Transfer(address,address,uint256)''],
                            eventNames := Some [''Approval'']\<rparr>)
     [logAt ''Transfer'' 3 ''a''] (Some 10) emptyState
   = Returns () emptyState"
  by (simp add: processEvents_def currentBlockNumberOr_def filterByEventNames_def scen)

section \<open>Failures in a poll cycle (C6)\<close>

lemma catchAndLog_no_throw: "catchAndLog r \<noteq> Some (Throws e s)"
  by (simp add: catchAndLog_def split: option.split outcome.split)

text \<open>
  C6, as the code has it. What \<^verbatim>\<open>isReorg\<close> or \<^verbatim>\<open>batchFetchAndProcessEvents\<close> throws in
  a poll cycle ends the cycle, \<^verbatim>\<open>poll\<close> returns, and the failure is written to the logger
  with the state the failing call left; writing to the logger emits nothing. Outside the
  path of a detected reorganisation \<^verbatim>\<open>poll\<close> throws nothing.
\<close>

theorem poll_failures_are_logged:
  "(reorgCheck env em s = Throws e s1 \<longrightarrow>
      poll env em currentBlock s
        = Some (Returns () (logger_error (ErrorInTheProcessingLoop e) s1)))
   \<and> (reorgCheck env em s = Returns False s1
        \<and> map_option fst (lastFetchedBlock s1) \<noteq> Some (number currentBlock)
        \<and> batchFetchAndProcessEvents env em (pollFrom s1) (Num (number currentBlock))
             currentBlock s1 = Some (Throws e s2) \<longrightarrow>
      poll env em currentBlock s
        = Some (Returns () (logger_error (ErrorInTheProcessingLoop e) s2)))
   \<and> ((\<forall>s3. reorgCheck env em s \<noteq> Returns True s3) \<longrightarrow>
        (\<forall>e' s'. poll env em currentBlock s \<noteq> Some (Throws e' s')))
   \<and> emitted (logger_error (ErrorInTheProcessingLoop e) s1) = emitted s1"
proof (intro conjI impI)
  assume "reorgCheck env em s = Throws e s1"
  then show "poll env em currentBlock s
        = Some (Returns () (logger_error (ErrorInTheProcessingLoop e) s1))"
    by (simp add: poll_def catchAndLog_def)
next
  assume "reorgCheck env em s = Returns False s1
        \<and> map_option fst (lastFetchedBlock s1) \<noteq> Some (number currentBlock)
        \<and> batchFetchAndProcessEvents env em (pollFrom s1) (Num (number currentBlock))
             currentBlock s1 = Some (Throws e s2)"
  then show "poll env em currentBlock s
        = Some (Returns () (logger_error (ErrorInTheProcessingLoop e) s2))"
    by (simp add: poll_def catchAndLog_def)
next
  assume no: "\<forall>s3. reorgCheck env em s \<noteq> Returns True s3"
  show "\<forall>e' s'. poll env em currentBlock s \<noteq> Some (Throws e' s')"
  proof (cases "reorgCheck env em s")
    case (Throws e0 s0)
    then show ?thesis
      by (simp add: poll_def catchAndLog_no_throw)
  next
    case (Returns b s0)
    with no have "b = False" by (cases b) auto
    with Returns show ?thesis
      by (simp add: poll_def catchAndLog_no_throw)
  qed
next
  show "emitted (logger_error (ErrorInTheProcessingLoop e) s1) = emitted s1"
    by (simp add: logger_error_def)
qed

theorem poll_failures_are_logged_witness:
  "poll (timeoutNode 8 (\<lambda>n. ''h'')) (exampleEmitter 5 0) \<lparr>number = 8, hash = ''h''\<rparr>
     (emptyState\<lparr>lastFetchedBlock := Some (5, ''h'')\<rparr>)
   = Some (Returns ()
       (logger_error (ErrorInTheProcessingLoop (RpcError ''timeout''))
          (emptyState\<lparr>lastFetchedBlock := Some (5, ''h'')\<rparr>)))
   \<and> poll ((exampleNode 8 (\<lambda>n. ''h'') [])\<lparr>getBlock := (\<lambda>b. Inl (RpcError ''down''))\<rparr>)
       (exampleEmitter 5 2) \<lparr>number = 8, hash = ''h''\<rparr>
       (emptyState\<lparr>lastFetchedBlock := Some (5, ''h'')\<rparr>)
     = Some (Returns ()
       (logger_error (ErrorInTheProcessingLoop (RpcError ''down''))
          (emptyState\<lparr>lastFetchedBlock := Some (5, ''h'')\<rparr>)))"
proof -
  let ?s = "emptyState\<lparr>lastFetchedBlock := Some (5, ''h'')\<rparr>"
  let ?cur = "\<lparr>number = 8, hash = ''h''\<rparr>"
  let ?D = "(exampleNode 8 (\<lambda>n. ''h'') [])\<lparr>getBlock := (\<lambda>b. Inl (RpcError ''down''))\<rparr>"
  have r: "reorgCheck (timeoutNode 8 (\<lambda>n. ''h'')) (exampleEmitter 5 0) ?s = Returns False ?s"
    by (simp add: reorgCheck_def exampleEmitter_def)
  have l: "map_option fst (lastFetchedBlock ?s) \<noteq> Some (number ?cur)"
    by simp
  have b: "batchFetchAndProcessEvents (timeoutNode 8 (\<lambda>n. ''h'')) (exampleEmitter 5 0) (pollFrom ?s)
      (Num (number ?cur)) ?cur ?s = Some (Throws (RpcError ''timeout'') ?s)"
    by (simp add: pollFrom_def batchFetchAndProcessEvents_def countOfBatches_def ceilDiv_def
        batchLoop.simps batchBody_def batchFromBlock_def batchToBlock_def scen)
  have d: "reorgCheck ?D (exampleEmitter 5 2) ?s = Throws (RpcError ''down'') ?s"
    by (simp add: reorgCheck_def isReorg_def scen)
  from poll_failures_are_logged [of "timeoutNode 8 (\<lambda>n. ''h'')" "exampleEmitter 5 0" ?s
      "RpcError ''timeout''" ?s ?cur ?s] r l b
  have 1: "poll (timeoutNode 8 (\<lambda>n. ''h'')) (exampleEmitter 5 0) ?cur ?s
     = Some (Returns () (logger_error (ErrorInTheProcessingLoop (RpcError ''timeout'')) ?s))"
    by blast
  from poll_failures_are_logged [of ?D "exampleEmitter 5 2" ?s "RpcError ''down''" ?s ?cur] d
  have 2: "poll ?D (exampleEmitter 5 2) ?cur ?s
     = Some (Returns () (logger_error (ErrorInTheProcessingLoop (RpcError ''down'')) ?s))"
    by blast
  from 1 2 show ?thesis by blast
qed

text \<open>
  C6 as stated fails: when the log endpoint of the node times out, \<^verbatim>\<open>poll\<close> returns, the
  failure is in the log, and nothing is on the error channel.
\<close>

theorem poll_swallows_counterexample:
  "poll (timeoutNode 8 (\<lambda>n. ''h'')) (exampleEmitter 5 0) \<lparr>number = 8, hash = ''h''\<rparr>
     (emptyState\<lparr>lastFetchedBlock := Some (5, ''h'')\<rparr>)
   = Some (Returns ()
       (emptyState\<lparr>lastFetchedBlock := Some (5, ''h''),
          errorLog := [ErrorInTheProcessingLoop (RpcError ''timeout'')]\<rparr>))
   \<and> emitted (emptyState\<lparr>lastFetchedBlock := Some (5, ''h''),
          errorLog := [ErrorInTheProcessingLoop (RpcError ''timeout'')]\<rparr>) = []"
  by (simp add: poll_def reorgCheck_def pollFrom_def catchAndLog_def logger_error_def
        batchFetchAndProcessEvents_def countOfBatches_def ceilDiv_def batchLoop.simps batchBody_def
        batchFromBlock_def batchToBlock_def scen)

section \<open>A range whose start is after its end (C7)\<close>

text \<open>
  C7, as the code has it. \<^verbatim>\<open>batchFetchAndProcessEvents\<close> throws on a range with
  \<open>from > to\<close>, before it fetches anything. In \<^verbatim>\<open>poll\<close> without a detected
  reorganisation: when the last fetched block is the current block, \<^verbatim>\<open>poll\<close> returns at
  once; when it is after the current block, the error is thrown, caught and logged.
\<close>

theorem fetch_from_after_to:
  "(t < f \<longrightarrow>
      batchFetchAndProcessEvents env em (Num f) (Num t) currentBlock s
        = Some (Throws FromAfterTo s))
   \<and> (reorgCheck env em s = Returns False s \<and> lastFetchedBlock s = Some (n, h)
        \<and> number currentBlock = n \<longrightarrow>
      poll env em currentBlock s = Some (Returns () s))
   \<and> (reorgCheck env em s = Returns False s \<and> lastFetchedBlock s = Some (n, h)
        \<and> number currentBlock < n \<longrightarrow>
      poll env em currentBlock s
        = Some (Returns () (logger_error (ErrorInTheProcessingLoop FromAfterTo) s)))"
proof (intro conjI impI)
  assume "t < f"
  then show "batchFetchAndProcessEvents env em (Num f) (Num t) currentBlock s
        = Some (Throws FromAfterTo s)"
    by (simp add: batchFetchAndProcessEvents_def)
next
  assume "reorgCheck env em s = Returns False s \<and> lastFetchedBlock s = Some (n, h)
        \<and> number currentBlock = n"
  then show "poll env em currentBlock s = Some (Returns () s)"
    by (simp add: poll_no_reorg)
next
  assume a: "reorgCheck env em s = Returns False s \<and> lastFetchedBlock s = Some (n, h)
        \<and> number currentBlock < n"
  then have "batchFetchAndProcessEvents env em (pollFrom s) (Num (number currentBlock)) currentBlock s
      = Some (Throws FromAfterTo s)"
    by (simp add: batchFetchAndProcessEvents_def pollFrom_def)
  with a show "poll env em currentBlock s
        = Some (Returns () (logger_error (ErrorInTheProcessingLoop FromAfterTo) s))"
    by (simp add: poll_no_reorg catchAndLog_def)
qed

theorem fetch_from_after_to_witness:
  "batchFetchAndProcessEvents (exampleNode 3 (\<lambda>n. ''h'') []) (exampleEmitter 5 0) (Num 4) (Num 3)
      \<lparr>number = 3, hash = ''h''\<rparr> emptyState = Some (Throws FromAfterTo emptyState)
   \<and> poll (exampleNode 3 (\<lambda>n. ''h'') []) (exampleEmitter 5 0) \<lparr>number = 3, hash = ''h''\<rparr>
        (emptyState\<lparr>lastFetchedBlock := Some (3, ''h'')\<rparr>)
      = Some (Returns () (emptyState\<lparr>lastFetchedBlock := Some (3, ''h'')\<rparr>))
   \<and> poll (exampleNode 3 (\<lambda>n. ''h'') []) (exampleEmitter 5 0) \<lparr>number = 3, hash = ''h''\<rparr>
        (emptyState\<lparr>lastFetchedBlock := Some (7, ''h'')\<rparr>)
      = Some (Returns () (logger_error (ErrorInTheProcessingLoop FromAfterTo)
                (emptyState\<lparr>lastFetchedBlock := Some (7, ''h'')\<rparr>)))"
  using
    fetch_from_after_to [where t = 3 and f = 4 and env = "exampleNode 3 (\<lambda>n. ''h'') []"
      and em = "exampleEmitter 5 0" and currentBlock = "\<lparr>number = 3, hash = ''h''\<rparr>"
      and s = emptyState]
    fetch_from_after_to [where n = 3 and h = "''h''" and env = "exampleNode 3 (\<lambda>n. ''h'') []"
      and em = "exampleEmitter 5 0" and currentBlock = "\<lparr>number = 3, hash = ''h''\<rparr>"
      and s = "emptyState\<lparr>lastFetchedBlock := Some (3, ''h'')\<rparr>"]
    fetch_from_after_to [where n = 7 and h = "''h''" and env = "exampleNode 3 (\<lambda>n. ''h'') []"
      and em = "exampleEmitter 5 0" and currentBlock = "\<lparr>number = 3, hash = ''h''\<rparr>"
      and s = "emptyState\<lparr>lastFetchedBlock := Some (7, ''h'')\<rparr>"]
  by (simp add: reorgCheck_def exampleEmitter_def emptyState_def)

text \<open>C7 as stated fails: the fetch over \<open>[5, 3]\<close> raises an error.\<close>

theorem batchFetch_inverted_counterexample:
  "batchFetchAndProcessEvents (exampleNode 3 (\<lambda>n. ''h'') []) (exampleEmitter 5 0) (Num 5) (Num 3)
     \<lparr>number = 3, hash = ''h''\<rparr> emptyState = Some (Throws FromAfterTo emptyState)"
  by (simp add: batchFetchAndProcessEvents_def)

section \<open>The first fetch (C8)\<close>

lemma init_genesis_ends:
  assumes s: "lastFetchedBlock s = None" and cur: "getBlock env (Str ''latest'') = Inr currentBlock"
    and g: "startingBlock em = Str ''genesis''" and h: "0 \<le> number currentBlock"
    and b: "batchSize em \<noteq> 1" and a: "nodeAnswers env"
  shows "\<exists>out. init env em s = Some out \<and> onlyDuplicates out"
    and "confirmations em = 0 \<Longrightarrow> \<exists>s'. init env em s = Some (Returns () s') \<and> isInitialized s'"
proof -
  from countOfBatches_finite [OF h b] obtain n
    where n: "countOfBatches em 0 (number currentBlock) = Finite n" by blast
  have i: "init env em s =
      finishInit env (batchLoop env em 0 (number currentBlock) currentBlock (Finite n) 0 s)"
    using s cur g h n
    by (simp add: init_def processPastEvents_def batchFetchAndProcessEvents_def)
  from batchLoop_finite [OF a, of em 0 "number currentBlock" currentBlock n 0 s]
  obtain out where out: "batchLoop env em 0 (number currentBlock) currentBlock (Finite n) 0 s = Some out"
    and d: "onlyDuplicates out" by blast
  show "\<exists>out. init env em s = Some out \<and> onlyDuplicates out"
  proof (cases out)
    case (Throws e s1)
    with out d show ?thesis
      unfolding i by (simp add: finishInit_def onlyDuplicates_def)
  next
    case (Returns u s1)
    with out show ?thesis
      unfolding i by (simp add: finishInit_def onlyDuplicates_def)
  qed
  assume "confirmations em = 0"
  from batchLoop_finite_0 [OF a this, of 0 "number currentBlock" currentBlock n 0 s]
  obtain s1 where "batchLoop env em 0 (number currentBlock) currentBlock (Finite n) 0 s
      = Some (Returns () s1)" by blast
  then show "\<exists>s'. init env em s = Some (Returns () s') \<and> isInitialized s'"
    unfolding i by (simp add: finishInit_def emit_def split: option.split)
qed

text \<open>
  C8, as the code has it. With no last fetched block stored, \<^verbatim>\<open>init\<close> fetches from the
  starting block to the head the node reports: from the number itself, or from 0 for
  \<^verbatim>\<open>'genesis'\<close>. The alias \<^verbatim>\<open>'latest'\<close> is resolved for the end of the range only: as
  a starting block it fails the check on the type of the bounds. From \<^verbatim>\<open>'genesis'\<close>,
  with a batch size other than 1 and an environment that answers, the catch-up ends, and
  the only error it can raise is the one of a duplicate row; without confirmations it
  raises none.
\<close>

theorem init_first_fetch:
  assumes "lastFetchedBlock s = None" and "getBlock env (Str ''latest'') = Inr currentBlock"
  shows
   "(startingBlock em = Num k \<longrightarrow>
       init env em s =
         finishInit env
           (batchFetchAndProcessEvents env em (Num k) (Num (number currentBlock)) currentBlock s)
       \<and> batchFromBlock em k 0 = k)
  \<and> (startingBlock em = Str ''genesis'' \<longrightarrow>
       init env em s =
         finishInit env
           (batchFetchAndProcessEvents env em (Num 0) (Num (number currentBlock)) currentBlock s)
       \<and> batchFromBlock em 0 0 = 0)
  \<and> (startingBlock em = Str ''latest'' \<longrightarrow> init env em s = Some (Throws BlocksNotNumbers s))
  \<and> (startingBlock em = Str ''genesis'' \<and> 0 \<le> number currentBlock \<and> batchSize em \<noteq> 1
        \<and> nodeAnswers env \<longrightarrow>
       (\<exists>out. init env em s = Some out \<and> onlyDuplicates out))
  \<and> (startingBlock em = Str ''genesis'' \<and> 0 \<le> number currentBlock \<and> batchSize em \<noteq> 1
        \<and> nodeAnswers env \<and> confirmations em = 0 \<longrightarrow>
       (\<exists>s'. init env em s = Some (Returns () s') \<and> isInitialized s'))"
proof (intro conjI impI)
  assume "startingBlock em = Num k"
  then show "init env em s =
         finishInit env
           (batchFetchAndProcessEvents env em (Num k) (Num (number currentBlock)) currentBlock s)"
    using assms by (simp add: init_def processPastEvents_def)
next
  show "batchFromBlock em k 0 = k" by (simp add: batchFromBlock_def)
next
  assume "startingBlock em = Str ''genesis''"
  then show "init env em s =
         finishInit env
           (batchFetchAndProcessEvents env em (Num 0) (Num (number currentBlock)) currentBlock s)"
    using assms by (simp add: init_def processPastEvents_def)
next
  show "batchFromBlock em 0 0 = 0" by (simp add: batchFromBlock_def)
next
  assume "startingBlock em = Str ''latest''"
  then show "init env em s = Some (Throws BlocksNotNumbers s)"
    using assms
    by (simp add: init_def processPastEvents_def batchFetchAndProcessEvents_def finishInit_def)
next
  assume "startingBlock em = Str ''genesis'' \<and> 0 \<le> number currentBlock \<and> batchSize em \<noteq> 1
        \<and> nodeAnswers env"
  then show "\<exists>out. init env em s = Some out \<and> onlyDuplicates out"
    using init_genesis_ends(1) [OF assms] by blast
next
  assume "startingBlock em = Str ''genesis'' \<and> 0 \<le> number currentBlock \<and> batchSize em \<noteq> 1
        \<and> nodeAnswers env \<and> confirmations em = 0"
  then show "\<exists>s'. init env em s = Some (Returns () s') \<and> isInitialized s'"
    using init_genesis_ends(2) [OF assms] by blast
qed

theorem init_first_fetch_witness:
  "init (exampleNode 9 (\<lambda>n. ''h'') []) ((exampleEmitter 5 0)\<lparr>startingBlock := Num 7\<rparr>) emptyState
     = finishInit (exampleNode 9 (\<lambda>n. ''h'') [])
         (batchFetchAndProcessEvents (exampleNode 9 (\<lambda>n. ''h'') [])
            ((exampleEmitter 5 0)\<lparr>startingBlock := Num 7\<rparr>) (Num 7) (Num 9)
            \<lparr>number = 9, hash = ''h''\<rparr> emptyState)
   \<and> init (exampleNode 9 (\<lambda>n. ''h'') []) (exampleEmitter 5 2) emptyState
     = finishInit (exampleNode 9 (\<lambda>n. ''h'') [])
         (batchFetchAndProcessEvents (exampleNode 9 (\<lambda>n. ''h'') []) (exampleEmitter 5 2)
            (Num 0) (Num 9) \<lparr>number = 9, hash = ''h''\<rparr> emptyState)
   \<and> init (exampleNode 9 (\<lambda>n. ''h'') []) ((exampleEmitter 5 0)\<lparr>startingBlock := Str ''latest''\<rparr>)
        emptyState = Some (Throws BlocksNotNumbers emptyState)
   \<and> (\<exists>out. init (exampleNode 9 (\<lambda>n. ''h'') []) (exampleEmitter 5 2) emptyState = Some out
          \<and> onlyDuplicates out)
   \<and> (\<exists>s'. init (exampleNode 9 (\<lambda>n. ''h'') []) (exampleEmitter 5 0) emptyState
              = Some (Returns () s') \<and> isInitialized s')"
proof -
  let ?N = "exampleNode 9 (\<lambda>n. ''h'') []"
  let ?cur = "\<lparr>number = 9, hash = ''h''\<rparr>"
  have s: "lastFetchedBlock emptyState = None"
    by (simp add: emptyState_def)
  have c: "getBlock ?N (Str ''latest'') = Inr ?cur"
    by (simp add: exampleNode_def)
  note t = init_first_fetch [OF s c]
  have n: "number ?cur = 9" "0 \<le> number ?cur" by simp_all
  have a: "nodeAnswers ?N" by (simp add: nodeAnswers_def exampleNode_def)
  have e7: "startingBlock ((exampleEmitter 5 0)\<lparr>startingBlock := Num 7\<rparr>) = Num 7" by simp
  have eL: "startingBlock ((exampleEmitter 5 0)\<lparr>startingBlock := Str ''latest''\<rparr>) = Str ''latest''"
    by simp
  have g: "startingBlock (exampleEmitter 5 c) = Str ''genesis''"
    "batchSize (exampleEmitter 5 c) \<noteq> 1" "confirmations (exampleEmitter 5 c) = c" for c
    by (simp_all add: exampleEmitter_def)
  from t [of "(exampleEmitter 5 0)\<lparr>startingBlock := Num 7\<rparr>" 7] e7 n(1)
  have 1: "init ?N ((exampleEmitter 5 0)\<lparr>startingBlock := Num 7\<rparr>) emptyState
     = finishInit ?N
         (batchFetchAndProcessEvents ?N ((exampleEmitter 5 0)\<lparr>startingBlock := Num 7\<rparr>)
            (Num 7) (Num 9) ?cur emptyState)"
    by simp
  from t [of "exampleEmitter 5 2"] g(1) [of 2] n(1)
  have 2: "init ?N (exampleEmitter 5 2) emptyState
     = finishInit ?N
         (batchFetchAndProcessEvents ?N (exampleEmitter 5 2) (Num 0) (Num 9) ?cur emptyState)"
    by simp
  from t [of "(exampleEmitter 5 0)\<lparr>startingBlock := Str ''latest''\<rparr>"] eL
  have 3: "init ?N ((exampleEmitter 5 0)\<lparr>startingBlock := Str ''latest''\<rparr>) emptyState
      = Some (Throws BlocksNotNumbers emptyState)"
    by blast
  from t [of "exampleEmitter 5 2"] g [of 2] n(2) a
  have 4: "\<exists>out. init ?N (exampleEmitter 5 2) emptyState = Some out \<and> onlyDuplicates out"
    by blast
  from t [of "exampleEmitter 5 0"] g [of 0] n(2) a
  have 5: "\<exists>s'. init ?N (exampleEmitter 5 0) emptyState = Some (Returns () s') \<and> isInitialized s'"
    by blast
  from 1 2 3 4 5 show ?thesis by blast
qed

text \<open>C8 as stated fails: with the starting block \<^verbatim>\<open>'latest'\<close> the catch-up throws.\<close>

theorem init_latest_counterexample:
  "init (exampleNode 9 (\<lambda>n. ''h'') []) ((exampleEmitter 5 0)\<lparr>startingBlock := Str ''latest''\<rparr>)
     emptyState = Some (Throws BlocksNotNumbers emptyState)"
  by (simp add: init_def finishInit_def processPastEvents_def batchFetchAndProcessEvents_def scen)

section \<open>The confirmator in the path of a reorganisation (C10)\<close>

text \<open>
  The path of a reorganisation is taken only with confirmations other than zero, and the
  constructor makes a confirmator exactly for positive confirmations.
\<close>

lemma reorgCheck_true_confirmations:
  "reorgCheck env em s = Returns True s1 \<Longrightarrow> confirmations em \<noteq> 0"
  by (auto simp: reorgCheck_def split: if_splits)

lemma constructor_confirmator:
  assumes "BaseEventsEmitter_constructor env address options = Inr em"
  shows "0 < confirmations em \<Longrightarrow> \<exists>c. confirmator em = Some c"
    and "confirmations em \<le> 0 \<Longrightarrow> confirmator em = None"
  using assms
  by (auto simp: BaseEventsEmitter_constructor_def Let_def split: if_splits option.splits)

text \<open>
  C10 on the code, with \<open>confirmations = -1\<close>: the constructor accepts the options and
  makes no confirmator; \<^verbatim>\<open>poll\<close> checks for a reorganisation, because -1 is true, finds
  one, and \<^verbatim>\<open>handleReorg\<close> fails on the confirmator that is undefined.
\<close>

theorem poll_negative_confirmations:
  "BaseEventsEmitter_constructor (exampleNode 9 (\<lambda>n. ''new'') []) ''0x123''
     (Some (exampleOptions\<lparr>opt_confirmations := Some (- 1)\<rparr>))
     = Inr ((exampleEmitter 120 (- 1)))
   \<and> confirmator (exampleEmitter 120 (- 1)) = None
   \<and> poll (exampleNode 9 (\<lambda>n. ''new'') []) (exampleEmitter 120 (- 1)) \<lparr>number = 9, hash = ''new''\<rparr>
       (emptyState\<lparr>lastFetchedBlock := Some (5, ''old'')\<rparr>)
     = Some (Throws ConfirmatorUndefined
         (emptyState\<lparr>lastFetchedBlock := Some (5, ''old''), emitted := [Reorg]\<rparr>))"
  by (simp add: scen BaseEventsEmitter_constructor_def optField_def hashTopics_def
      poll_def reorgCheck_def isReorg_def checkLastProcessed_def emit_def handleReorg_def reorgFromBlock_def)

end
